theory Spec2Isabelle
  imports Complex_Main
begin

section \<open>Shared vocabulary\<close>

text \<open>
  A document identifier (\<^verbatim>\<open>mongoose.Types.ObjectId\<close>) is held as the string it
  prints, which is what \<^verbatim>\<open>toString()\<close> returns and what an access token carries.
  A string a service receives may spell an identifier otherwise (hexadecimal digits in
  upper case): \<^verbatim>\<open>createBid\<close> and \<^verbatim>\<open>updateGig\<close> below cast such a string where
  the source does.
\<close>

type_synonym oid = string

text \<open>
  Every \<^verbatim>\<open>throw\<close> of the services is a value. \<^verbatim>\<open>ApiError(statusCode, message)\<close>
  is the application's own error; the other constructors are the errors of the store:
  a schema validator that refuses a document on \<^verbatim>\<open>save()\<close>, the duplicate-key
  error (E11000) of a unique index, and the refusal to cast a string that is no
  identifier.
\<close>

datatype error =
    ApiError nat string
  | ValidationError
  | DuplicateKeyError
  | CastError

text \<open>
  Modelled from the spec: the failure kinds of section 7 of the specification, read off
  the status code an \<^verbatim>\<open>ApiError\<close> carries (the class \<^verbatim>\<open>utils/apierror\<close> stores the
  code and the message and nothing else).
\<close>

datatype kind = BadRequest | Unauthorized | Forbidden | NotFound | Conflict | Internal

definition kind_of_status :: "nat \<Rightarrow> kind" where
  "kind_of_status c =
     (if c = 400 then BadRequest
      else if c = 401 then Unauthorized
      else if c = 403 then Forbidden
      else if c = 404 then NotFound
      else if c = 409 then Conflict
      else Internal)"

fun kind_of :: "error \<Rightarrow> kind" where
  "kind_of (ApiError c m) = kind_of_status c"
| "kind_of ValidationError = Internal"
| "kind_of DuplicateKeyError = Internal"
| "kind_of CastError = Internal"

text \<open>A request body, as \<^verbatim>\<open>express.json()\<close> parses it: a JSON object.\<close>

datatype jvalue =
    JNumber real
  | JString string
  | JBoolean bool
  | JNull
  | JArray "jvalue list"
  | JObject "(string \<times> jvalue) list"

type_synonym body = "(string \<times> jvalue) list"

text \<open>
  What the code calls but the repository does not define: the functions of the
  platform and of its libraries. They are parameters of the model, so every theorem
  holds whatever they compute.
  \<^item> \<open>ObjectId_isValid\<close>: \<^verbatim>\<open>mongoose.Types.ObjectId.isValid\<close>;
  \<^item> \<open>ObjectId_hex\<close>: the cast of a string to an identifier,
    \<^verbatim>\<open>new mongoose.Types.ObjectId(s)\<close>, as the string the identifier prints;
    \<open>None\<close> when the string is no identifier;
  \<^item> \<open>attachment_regex\<close>, \<open>email_regex\<close>: the tests of the regular expressions that
    the schemas give for an attachment and for an email;
  \<^item> \<open>toLowerCase\<close>, \<open>trim\<close>: the string methods behind the schema options
    \<^verbatim>\<open>lowercase\<close> and \<^verbatim>\<open>trim\<close>;
  \<^item> \<open>sha256_hex\<close>: \<^verbatim>\<open>crypto.createHash('sha256').update(s).digest('hex')\<close>;
  \<^item> \<open>bcrypt_hash\<close> (password, salt) and \<open>bcrypt_compare\<close> (candidate, hash);
  \<^item> \<open>Joi_number\<close>, \<open>Joi_string\<close>, \<open>Joi_array\<close>: the value a Joi base type accepts
    (after its conversions), \<open>None\<close> when it refuses the input; \<open>Joi_uri\<close> and
    \<open>attachment_ext_regex\<close>: the rules \<^verbatim>\<open>uri()\<close> and \<^verbatim>\<open>pattern(...)\<close> of the
    attachment items; \<open>Joi_message\<close>: the text Joi reports for a path and an
    error code.
\<close>

record platform =
  ObjectId_isValid :: "string \<Rightarrow> bool"
  ObjectId_hex :: "string \<Rightarrow> oid option"
  attachment_regex :: "string \<Rightarrow> bool"
  email_regex :: "string \<Rightarrow> bool"
  toLowerCase :: "string \<Rightarrow> string"
  trim :: "string \<Rightarrow> string"
  sha256_hex :: "string \<Rightarrow> string"
  bcrypt_hash :: "string \<Rightarrow> string \<Rightarrow> string"
  bcrypt_compare :: "string \<Rightarrow> string \<Rightarrow> bool"
  Joi_number :: "jvalue \<Rightarrow> real option"
  Joi_string :: "jvalue \<Rightarrow> string option"
  Joi_array :: "jvalue \<Rightarrow> jvalue list option"
  Joi_uri :: "string \<Rightarrow> bool"
  attachment_ext_regex :: "string \<Rightarrow> bool"
  Joi_message :: "string \<Rightarrow> string \<Rightarrow> string"

section \<open>Bids: data model (bids.model.ts)\<close>

datatype bid_status = Pending | Accepted | Rejected | Withdrawn

text \<open>
  The document \<^verbatim>\<open>IBid\<close>. The timestamps \<^verbatim>\<open>createdAt\<close> and \<^verbatim>\<open>updatedAt\<close>, which
  the store maintains by itself, are left out.
\<close>

record bid =
  bid_id :: oid
  gigId :: oid
  freelancerId :: oid
  clientId :: oid
  amount :: real
  deliveryTime :: real
  proposal :: string
  status :: bid_status
  attachments :: "string list"

text \<open>\<^verbatim>\<open>Partial<IBid>\<close>: any subset of the fields of a bid.\<close>

record bid_patch =
  patch_gigId :: "oid option"
  patch_freelancerId :: "oid option"
  patch_clientId :: "oid option"
  patch_amount :: "real option"
  patch_deliveryTime :: "real option"
  patch_proposal :: "string option"
  patch_status :: "bid_status option"
  patch_attachments :: "string list option"

text \<open>What the bids service reads of a gig (gigs.model.ts).\<close>

record gig =
  gig_id :: oid
  gig_freelancerId :: oid
  gig_isActive :: bool

subsection \<open>The collection and its queries\<close>

text \<open>
  A collection is the list of its documents in insertion order. The store keeps
  \<^verbatim>\<open>_id\<close> unique, and the pair (gigId, freelancerId) as well, by the unique compound
  index of the schema.
\<close>

definition Gig_findById :: "oid \<Rightarrow> gig list \<Rightarrow> gig option" where
  "Gig_findById i gs = find (\<lambda>g. gig_id g = i) gs"

definition Bid_findOne :: "(bid \<Rightarrow> bool) \<Rightarrow> bid list \<Rightarrow> bid option" where
  "Bid_findOne q bs = find q bs"

definition apply_patch :: "bid_patch \<Rightarrow> bid \<Rightarrow> bid" where
  "apply_patch p b =
     b\<lparr> gigId := (case patch_gigId p of None \<Rightarrow> gigId b | Some v \<Rightarrow> v),
        freelancerId := (case patch_freelancerId p of None \<Rightarrow> freelancerId b | Some v \<Rightarrow> v),
        clientId := (case patch_clientId p of None \<Rightarrow> clientId b | Some v \<Rightarrow> v),
        amount := (case patch_amount p of None \<Rightarrow> amount b | Some v \<Rightarrow> v),
        deliveryTime := (case patch_deliveryTime p of None \<Rightarrow> deliveryTime b | Some v \<Rightarrow> v),
        proposal := (case patch_proposal p of None \<Rightarrow> proposal b | Some v \<Rightarrow> v),
        status := (case patch_status p of None \<Rightarrow> status b | Some v \<Rightarrow> v),
        attachments := (case patch_attachments p of None \<Rightarrow> attachments b | Some v \<Rightarrow> v) \<rparr>"

text \<open>The unique index: another document already holds the pair of \<open>b\<close>.\<close>

definition index_conflict :: "bid \<Rightarrow> bid list \<Rightarrow> bool" where
  "index_conflict b bs =
     list_ex (\<lambda>c. bid_id c \<noteq> bid_id b \<and> gigId c = gigId b \<and> freelancerId c = freelancerId b) bs"

fun replace_doc :: "oid \<Rightarrow> bid \<Rightarrow> bid list \<Rightarrow> bid list" where
  "replace_doc i b' [] = []"
| "replace_doc i b' (b # bs) = (if bid_id b = i then b' # bs else b # replace_doc i b' bs)"

text \<open>
  \<^verbatim>\<open>findByIdAndUpdate(id, update, { new: true })\<close>: the document with that
  \<^verbatim>\<open>_id\<close> is updated and returned, \<^verbatim>\<open>null\<close> when there is none. Update validators
  are off (the call does not ask for them); the unique index refuses an update that
  moves the document onto a pair another document holds.
\<close>

definition Bid_findByIdAndUpdate ::
  "oid \<Rightarrow> bid_patch \<Rightarrow> bid list \<Rightarrow> (error + bid option) \<times> bid list" where
  "Bid_findByIdAndUpdate i p bs =
     (case find (\<lambda>b. bid_id b = i) bs of
        None \<Rightarrow> (Inr None, bs)
      | Some b \<Rightarrow>
          (let b' = apply_patch p b in
           if (gigId b', freelancerId b') \<noteq> (gigId b, freelancerId b) \<and> index_conflict b' bs
           then (Inl DuplicateKeyError, bs)
           else (Inr (Some b'), replace_doc i b' bs)))"

definition Bid_updateMany :: "(bid \<Rightarrow> bool) \<Rightarrow> bid_patch \<Rightarrow> bid list \<Rightarrow> bid list" where
  "Bid_updateMany q p bs = map (\<lambda>b. if q b then apply_patch p b else b) bs"

definition no_patch :: bid_patch where
  "no_patch = \<lparr> patch_gigId = None, patch_freelancerId = None, patch_clientId = None,
                patch_amount = None, patch_deliveryTime = None, patch_proposal = None,
                patch_status = None, patch_attachments = None \<rparr>"

definition status_patch :: "bid_status \<Rightarrow> bid_patch" where
  "status_patch s = no_patch\<lparr> patch_status := Some s \<rparr>"

text \<open>
  The validators of \<^verbatim>\<open>bidSchema\<close>, run by \<^verbatim>\<open>save()\<close>. An attachment
  must pass the schema's regular expression: an http or https URL that ends in one of
  the extensions pdf, doc, docx, txt, jpg, jpeg, png, gif, in any case.
\<close>

definition bidSchema_valid :: "platform \<Rightarrow> bid \<Rightarrow> bool" where
  "bidSchema_valid X b \<longleftrightarrow>
     5 \<le> amount b \<and> 1 \<le> deliveryTime b \<and> deliveryTime b \<le> 365 \<and>
     50 \<le> length (proposal b) \<and> length (proposal b) \<le> 1000 \<and>
     list_all (attachment_regex X) (attachments b)"

text \<open>
  \<^verbatim>\<open>new Bid(fields).save()\<close>, the new document getting the identifier \<open>newId\<close>:
  required paths must be present, \<^verbatim>\<open>status\<close> defaults to pending, the validators
  run, then the document is inserted unless a unique index refuses it.
\<close>

definition Bid_create ::
  "platform \<Rightarrow> bid_patch \<Rightarrow> oid \<Rightarrow> bid list \<Rightarrow> (error + bid) \<times> bid list" where
  "Bid_create X f newId bs =
     (case (patch_gigId f, patch_freelancerId f, patch_clientId f) of
        (Some g, Some fr, Some cl) \<Rightarrow>
          (case (patch_amount f, patch_deliveryTime f, patch_proposal f) of
             (Some a, Some d, Some pr) \<Rightarrow>
               (let b = \<lparr> bid_id = newId, gigId = g, freelancerId = fr, clientId = cl,
                          amount = a, deliveryTime = d, proposal = pr,
                          status = (case patch_status f of None \<Rightarrow> Pending | Some s \<Rightarrow> s),
                          attachments = (case patch_attachments f of None \<Rightarrow> [] | Some as \<Rightarrow> as) \<rparr>
                in if \<not> bidSchema_valid X b then (Inl ValidationError, bs)
                   else if list_ex (\<lambda>c. bid_id c = newId) bs \<or> index_conflict b bs
                   then (Inl DuplicateKeyError, bs)
                   else (Inr b, bs @ [b]))
           | _ \<Rightarrow> (Inl ValidationError, bs))
      | _ \<Rightarrow> (Inl ValidationError, bs))"

section \<open>Bids: the service (bids.service.ts)\<close>

text \<open>
  Each operation takes the collection and returns its outcome with the collection
  after it. The \<^verbatim>\<open>populate\<close> calls only decorate the returned document with
  data read from other collections; the document is returned as stored.
\<close>

text \<open>
  \<^verbatim>\<open>createBid\<close> compares the owner of the gig, printed, with the caller's string
  as it is; the query for an existing bid and the new document hold the caller's
  string cast to an identifier.
\<close>

definition BidsService_createBid ::
  "platform \<Rightarrow> gig list \<Rightarrow> bid list \<Rightarrow> bid_patch \<Rightarrow> string \<Rightarrow> oid \<Rightarrow> (error + bid) \<times> bid list" where
  "BidsService_createBid X gigs bs bidData freelancer newId =
     (case (case patch_gigId bidData of None \<Rightarrow> None | Some g \<Rightarrow> Gig_findById g gigs) of
        None \<Rightarrow> (Inl (ApiError 404 ''Gig not found or is not active''), bs)
      | Some gig \<Rightarrow>
          if \<not> gig_isActive gig then (Inl (ApiError 404 ''Gig not found or is not active''), bs)
          else if gig_freelancerId gig = freelancer
          then (Inl (ApiError 400 ''You cannot bid on your own gig''), bs)
          else
            (case ObjectId_hex X freelancer of
               None \<Rightarrow> (Inl CastError, bs)
             | Some fid \<Rightarrow>
                 (case Bid_findOne (\<lambda>b. Some (gigId b) = patch_gigId bidData \<and> freelancerId b = fid) bs of
                    Some existingBid \<Rightarrow>
                      (Inl (ApiError 400 ''You have already placed a bid on this gig''), bs)
                  | None \<Rightarrow>
                      Bid_create X
                        (bidData\<lparr> patch_freelancerId := Some fid,
                                  patch_clientId := Some (gig_freelancerId gig) \<rparr>)
                        newId bs)))"

definition BidsService_updateBid ::
  "platform \<Rightarrow> bid list \<Rightarrow> string \<Rightarrow> bid_patch \<Rightarrow> oid \<Rightarrow> (error + bid option) \<times> bid list" where
  "BidsService_updateBid X bs bidId updateData freelancer =
     (if \<not> ObjectId_isValid X bidId then (Inl (ApiError 400 ''Invalid bid ID''), bs)
      else
        (case Bid_findOne (\<lambda>b. bid_id b = bidId \<and> freelancerId b = freelancer \<and> status b = Pending) bs of
           None \<Rightarrow>
             (Inl (ApiError 404
                ''Bid not found or cannot be updated (only pending bids can be updated)''), bs)
         | Some bid \<Rightarrow> Bid_findByIdAndUpdate bidId updateData bs))"

text \<open>The parameter type \<^verbatim>\<open>'accepted' | 'rejected'\<close> of \<^verbatim>\<open>updateBidStatus\<close>.\<close>

datatype decision = accepted | rejected

fun decided :: "decision \<Rightarrow> bid_status" where
  "decided accepted = Accepted"
| "decided rejected = Rejected"

definition BidsService_updateBidStatus ::
  "platform \<Rightarrow> bid list \<Rightarrow> string \<Rightarrow> decision \<Rightarrow> oid \<Rightarrow> (error + bid option) \<times> bid list" where
  "BidsService_updateBidStatus X bs bidId st client =
     (if \<not> ObjectId_isValid X bidId then (Inl (ApiError 400 ''Invalid bid ID''), bs)
      else
        (case Bid_findOne (\<lambda>b. bid_id b = bidId \<and> clientId b = client \<and> status b = Pending) bs of
           None \<Rightarrow>
             (Inl (ApiError 404
                ''Bid not found or cannot be updated (only pending bids can be updated)''), bs)
         | Some bid \<Rightarrow>
             (let bs1 =
                (if st = accepted
                 then Bid_updateMany
                        (\<lambda>b. gigId b = gigId bid \<and> status b = Pending \<and> bid_id b \<noteq> bidId)
                        (status_patch Rejected) bs
                 else bs)
              in Bid_findByIdAndUpdate bidId (status_patch (decided st)) bs1)))"

definition BidsService_withdrawBid ::
  "platform \<Rightarrow> bid list \<Rightarrow> string \<Rightarrow> oid \<Rightarrow> (error + unit) \<times> bid list" where
  "BidsService_withdrawBid X bs bidId freelancer =
     (if \<not> ObjectId_isValid X bidId then (Inl (ApiError 400 ''Invalid bid ID''), bs)
      else
        (case Bid_findOne (\<lambda>b. bid_id b = bidId \<and> freelancerId b = freelancer \<and> status b = Pending) bs of
           None \<Rightarrow>
             (Inl (ApiError 404
                ''Bid not found or cannot be withdrawn (only pending bids can be withdrawn)''), bs)
         | Some bid \<Rightarrow>
             (case Bid_findByIdAndUpdate bidId (status_patch Withdrawn) bs of
                (Inl e, bs') \<Rightarrow> (Inl e, bs')
              | (Inr r, bs') \<Rightarrow> (Inr (), bs'))))"

section \<open>Gigs: changing a gig (gigs.service.ts)\<close>

text \<open>
  \<^verbatim>\<open>Partial<IGig>\<close>, for the attributes of a gig kept here, and
  \<^verbatim>\<open>GigsService.updateGig\<close>: the gig must be the caller's; the update is then
  applied as given. Both strings are cast by the query.
\<close>

record gig_patch =
  gpatch_freelancerId :: "oid option"
  gpatch_isActive :: "bool option"

definition apply_gig_patch :: "gig_patch \<Rightarrow> gig \<Rightarrow> gig" where
  "apply_gig_patch p g =
     g\<lparr> gig_freelancerId := (case gpatch_freelancerId p of None \<Rightarrow> gig_freelancerId g | Some v \<Rightarrow> v),
        gig_isActive := (case gpatch_isActive p of None \<Rightarrow> gig_isActive g | Some v \<Rightarrow> v) \<rparr>"

fun Gig_findByIdAndUpdate :: "oid \<Rightarrow> gig_patch \<Rightarrow> gig list \<Rightarrow> gig option \<times> gig list" where
  "Gig_findByIdAndUpdate i p [] = (None, [])"
| "Gig_findByIdAndUpdate i p (g # gs) =
     (if gig_id g = i then (Some (apply_gig_patch p g), apply_gig_patch p g # gs)
      else (case Gig_findByIdAndUpdate i p gs of (r, gs') \<Rightarrow> (r, g # gs')))"

definition GigsService_updateGig ::
  "platform \<Rightarrow> gig list \<Rightarrow> string \<Rightarrow> gig_patch \<Rightarrow> string \<Rightarrow> (error + gig option) \<times> gig list" where
  "GigsService_updateGig X gigs gigIdString updateData freelancer =
     (if \<not> ObjectId_isValid X gigIdString then (Inl (ApiError 400 ''Invalid gig ID''), gigs)
      else
        (case (ObjectId_hex X gigIdString, ObjectId_hex X freelancer) of
           (Some gid, Some fid) \<Rightarrow>
             (case find (\<lambda>g. gig_id g = gid \<and> gig_freelancerId g = fid) gigs of
                None \<Rightarrow>
                  (Inl (ApiError 404 ''Gig not found or you do not have permission to update it''),
                   gigs)
              | Some gig \<Rightarrow>
                  (case Gig_findByIdAndUpdate gid updateData gigs of (r, gigs') \<Rightarrow> (Inr r, gigs')))
         | _ \<Rightarrow> (Inl CastError, gigs)))"

section \<open>Bids: the controller (bids.controller.ts, bids.validate.ts)\<close>

text \<open>
  \<^verbatim>\<open>updateBidSchema\<close>: the four optional keys are checked in the order of the
  schema, then a key the schema does not name is refused (Joi's default). The result
  is the first error message, or the validated value.
\<close>

definition optional_number ::
  "platform \<Rightarrow> body \<Rightarrow> string \<Rightarrow> real \<Rightarrow> real option \<Rightarrow> string + real option" where
  "optional_number X b k lo hi =
     (case map_of b k of
        None \<Rightarrow> Inr None
      | Some v \<Rightarrow>
          (case Joi_number X v of
             None \<Rightarrow> Inl (Joi_message X k ''number.base'')
           | Some n \<Rightarrow>
               if n < lo then Inl (Joi_message X k ''number.min'')
               else if (case hi of None \<Rightarrow> False | Some h \<Rightarrow> h < n)
               then Inl (Joi_message X k ''number.max'')
               else Inr (Some n)))"

definition optional_string ::
  "platform \<Rightarrow> body \<Rightarrow> string \<Rightarrow> nat \<Rightarrow> nat \<Rightarrow> string + string option" where
  "optional_string X b k lo hi =
     (case map_of b k of
        None \<Rightarrow> Inr None
      | Some v \<Rightarrow>
          (case Joi_string X v of
             None \<Rightarrow> Inl (Joi_message X k ''string.base'')
           | Some s \<Rightarrow>
               if length s < lo then Inl (Joi_message X k ''string.min'')
               else if hi < length s then Inl (Joi_message X k ''string.max'')
               else Inr (Some s)))"

fun attachment_items :: "platform \<Rightarrow> string \<Rightarrow> jvalue list \<Rightarrow> string + string list" where
  "attachment_items X k [] = Inr []"
| "attachment_items X k (v # vs) =
     (case Joi_string X v of
        None \<Rightarrow> Inl (Joi_message X k ''string.base'')
      | Some s \<Rightarrow>
          if \<not> Joi_uri X s then Inl (Joi_message X k ''string.uri'')
          else if \<not> attachment_ext_regex X s then Inl (Joi_message X k ''string.pattern.base'')
          else (case attachment_items X k vs of Inl e \<Rightarrow> Inl e | Inr ss \<Rightarrow> Inr (s # ss)))"

definition optional_attachments ::
  "platform \<Rightarrow> body \<Rightarrow> string \<Rightarrow> nat \<Rightarrow> string + string list option" where
  "optional_attachments X b k hi =
     (case map_of b k of
        None \<Rightarrow> Inr None
      | Some v \<Rightarrow>
          (case Joi_array X v of
             None \<Rightarrow> Inl (Joi_message X k ''array.base'')
           | Some vs \<Rightarrow>
               (case attachment_items X k vs of
                  Inl e \<Rightarrow> Inl e
                | Inr ss \<Rightarrow>
                    if hi < length ss then Inl (Joi_message X k ''array.max'')
                    else Inr (Some ss))))"

definition updateBidSchema_validate :: "platform \<Rightarrow> body \<Rightarrow> string + bid_patch" where
  "updateBidSchema_validate X b =
     (case optional_number X b ''amount'' 5 None of
        Inl e \<Rightarrow> Inl e
      | Inr a \<Rightarrow>
     (case optional_number X b ''deliveryTime'' 1 (Some 365) of
        Inl e \<Rightarrow> Inl e
      | Inr d \<Rightarrow>
     (case optional_string X b ''proposal'' 50 1000 of
        Inl e \<Rightarrow> Inl e
      | Inr p \<Rightarrow>
     (case optional_attachments X b ''attachments'' 3 of
        Inl e \<Rightarrow> Inl e
      | Inr ats \<Rightarrow>
     (case find (\<lambda>k. k \<notin> set [''amount'', ''deliveryTime'', ''proposal'', ''attachments''])
             (map fst b) of
        Some k \<Rightarrow> Inl (Joi_message X k ''object.unknown'')
      | None \<Rightarrow>
          Inr (no_patch\<lparr> patch_amount := a, patch_deliveryTime := d,
                         patch_proposal := p, patch_attachments := ats \<rparr>))))))"

text \<open>
  \<^verbatim>\<open>BidsController.updateBid\<close>: validate the body, then call the service with
  the validated value, the bid of the URL and the caller of the access token. The
  response wraps the service's result; a thrown error goes to \<^verbatim>\<open>next\<close>.
\<close>

definition BidsController_updateBid ::
  "platform \<Rightarrow> bid list \<Rightarrow> body \<Rightarrow> string \<Rightarrow> oid \<Rightarrow> (error + bid option) \<times> bid list" where
  "BidsController_updateBid X bs b bidId caller =
     (case updateBidSchema_validate X b of
        Inl message \<Rightarrow> (Inl (ApiError 400 message), bs)
      | Inr v \<Rightarrow> BidsService_updateBid X bs bidId v caller)"

section \<open>Bids: sequences of operations\<close>

text \<open>
  The operations of the service, with their arguments (for \<^verbatim>\<open>createBid\<close>: the
  data, the caller, and the identifier the new document gets).
\<close>

datatype bid_op =
    CreateBid bid_patch oid oid
  | UpdateBid string bid_patch oid
  | UpdateBidStatus string decision oid
  | WithdrawBid string oid

fun exec_op :: "platform \<Rightarrow> gig list \<Rightarrow> bid list \<Rightarrow> bid_op \<Rightarrow> bid list" where
  "exec_op X gigs bs (CreateBid d f i) = snd (BidsService_createBid X gigs bs d f i)"
| "exec_op X gigs bs (UpdateBid i p f) = snd (BidsService_updateBid X bs i p f)"
| "exec_op X gigs bs (UpdateBidStatus i st c) = snd (BidsService_updateBidStatus X bs i st c)"
| "exec_op X gigs bs (WithdrawBid i f) = snd (BidsService_withdrawBid X bs i f)"

definition run_ops :: "platform \<Rightarrow> gig list \<Rightarrow> bid list \<Rightarrow> bid_op list \<Rightarrow> bid list" where
  "run_ops X gigs bs ops = foldl (exec_op X gigs) bs ops"

text \<open>
  The requests of the public interface: as above, except that an update carries the
  request body and goes through the controller.
\<close>

datatype bid_request =
    PostBid bid_patch oid oid
  | PutBid string body oid
  | PatchBidStatus string decision oid
  | DeleteBid string oid

fun serve :: "platform \<Rightarrow> gig list \<Rightarrow> bid list \<Rightarrow> bid_request \<Rightarrow> bid list" where
  "serve X gigs bs (PostBid d f i) = snd (BidsService_createBid X gigs bs d f i)"
| "serve X gigs bs (PutBid i b f) = snd (BidsController_updateBid X bs b i f)"
| "serve X gigs bs (PatchBidStatus i st c) = snd (BidsService_updateBidStatus X bs i st c)"
| "serve X gigs bs (DeleteBid i f) = snd (BidsService_withdrawBid X bs i f)"


text \<open>The status of the bid with a given identifier, if the collection has one.\<close>

definition status_of :: "oid \<Rightarrow> bid list \<Rightarrow> bid_status option" where
  "status_of i bs = map_option status (find (\<lambda>b. bid_id b = i) bs)"

text \<open>The two uniqueness constraints of the collection.\<close>

definition unique_ids :: "bid list \<Rightarrow> bool" where
  "unique_ids bs \<longleftrightarrow> distinct (map bid_id bs)"


text \<open>
  What identifies a bid and its parties: the identifier, the gig, the freelancer and
  the client taken from the gig when the bid was created.
\<close>

definition identity_of :: "bid \<Rightarrow> oid \<times> oid \<times> oid \<times> oid" where
  "identity_of b = (bid_id b, gigId b, freelancerId b, clientId b)"

text \<open>The bid is not by the owner of its gig, as far as the gig is in the collection.\<close>

definition not_own_gig :: "gig list \<Rightarrow> bid \<Rightarrow> bool" where
  "not_own_gig gigs b =
     (case Gig_findById (gigId b) gigs of
        None \<Rightarrow> True
      | Some g \<Rightarrow> freelancerId b \<noteq> gig_freelancerId g)"

text \<open>
  Requests served while the gigs change: each request comes with the collection of
  gigs of its moment.
\<close>

definition serve_each :: "platform \<Rightarrow> bid list \<Rightarrow> (gig list \<times> bid_request) list \<Rightarrow> bid list" where
  "serve_each X bs steps = foldl (\<lambda>bs' (gigs, r). serve X gigs bs' r) bs steps"

text \<open>
  Every gig keeps its owner: \<open>own\<close> gives, for a gig identifier, the owner of the gig
  with that identifier for as long as there is one, and a collection of gigs agrees
  with it.
\<close>

definition keeps_owners :: "(oid \<Rightarrow> oid option) \<Rightarrow> gig list \<Rightarrow> bool" where
  "keeps_owners own gigs \<longleftrightarrow> list_all (\<lambda>g. own (gig_id g) = Some (gig_freelancerId g)) gigs"

text \<open>No bid is by the owner of its gig.\<close>

definition no_own_gig_bid :: "(oid \<Rightarrow> oid option) \<Rightarrow> bid list \<Rightarrow> bool" where
  "no_own_gig_bid own bs \<longleftrightarrow> list_all (\<lambda>b. own (gigId b) \<noteq> Some (freelancerId b)) bs"

text \<open>
  The caller of \<^verbatim>\<open>createBid\<close> is named by the string its identifier prints, as in
  an access token (\<^verbatim>\<open>generateAuthToken\<close> signs \<^verbatim>\<open>this._id\<close>).
\<close>

fun printed_caller :: "platform \<Rightarrow> bid_request \<Rightarrow> bool" where
  "printed_caller X (PostBid d f i) = (ObjectId_hex X f = Some f)"
| "printed_caller X (PutBid i b f) = True"
| "printed_caller X (PatchBidStatus i st c) = True"
| "printed_caller X (DeleteBid i f) = True"

section \<open>Accounts: data model (user.model.ts, config.ts)\<close>

datatype role = Freelancer | Client

text \<open>
  \<^verbatim>\<open>jsonwebtoken\<close>. \<^verbatim>\<open>jwt.sign(payload, secret, { expiresIn })\<close> adds to the
  payload the claims \<^verbatim>\<open>iat\<close>, the clock in whole seconds, and \<^verbatim>\<open>exp\<close>, that many
  seconds later, and signs with HMAC-SHA256, which has no randomness: the token is a
  function of the secret, the payload and the second of issue. A token is represented
  by these four; any other string is \<open>Opaque\<close>. \<^verbatim>\<open>jwt.verify\<close> throws a
  \<^verbatim>\<open>JsonWebTokenError\<close> (\<open>None\<close>) unless the token was signed with the secret and
  the clock, in seconds, is before \<^verbatim>\<open>exp\<close>.
\<close>

record claims =
  claim_userId :: oid
  claim_email :: "string option"
  claim_role :: "role option"

datatype token =
    JWT string claims nat nat
  | Opaque string

definition jwt_sign :: "claims \<Rightarrow> string \<Rightarrow> nat \<Rightarrow> nat \<Rightarrow> token" where
  "jwt_sign payload secret expiresIn now =
     (let iat = now div 1000 in JWT secret payload iat (iat + expiresIn))"

fun jwt_verify :: "token \<Rightarrow> string \<Rightarrow> nat \<Rightarrow> claims option" where
  "jwt_verify (JWT k payload iat expiry) secret now =
     (if k = secret \<and> now div 1000 < expiry then Some payload else None)"
| "jwt_verify (Opaque s) secret now = None"

text \<open>The user a token names, whoever signed it.\<close>

fun token_userId :: "token \<Rightarrow> oid option" where
  "token_userId (JWT k payload iat expiry) = Some (claim_userId payload)"
| "token_userId (Opaque s) = None"

text \<open>\<^verbatim>\<open>config.jwt\<close>, the lifetimes in seconds (the defaults are 7 and 30 days).\<close>

record config =
  jwt_secret :: string
  jwt_expiresIn :: nat
  jwt_refreshSecret :: string
  jwt_refreshExpiresIn :: nat

definition default_config :: config where
  "default_config =
     \<lparr> jwt_secret = ''your-super-secret-jwt-key-change-this-in-production'',
       jwt_expiresIn = 7 * 24 * 60 * 60,
       jwt_refreshSecret = ''your-refresh-secret-key'',
       jwt_refreshExpiresIn = 30 * 24 * 60 * 60 \<rparr>"

text \<open>
  The document \<^verbatim>\<open>IUser\<close>, with the attributes the account operations read or
  write; times are milliseconds of the clock. The other profile attributes
  (picture, location, languages, portfolio, education, experience, links, rating,
  earnings, verification flags, the email verification token) and the timestamps are
  left out: no operation below depends on them.
\<close>

record user =
  user_id :: oid
  email :: string
  password :: string
  firstName :: string
  lastName :: string
  role :: role
  bio :: "string option"
  skills :: "string list"
  hourlyRate :: "real option"
  isActive :: bool
  lastLogin :: "nat option"
  refreshToken :: "token option"
  passwordResetToken :: "string option"
  passwordResetExpires :: "nat option"

text \<open>The argument of \<^verbatim>\<open>register\<close>.\<close>

record registration =
  reg_email :: string
  reg_password :: string
  reg_firstName :: string
  reg_lastName :: string
  reg_role :: role
  reg_bio :: "string option"
  reg_skills :: "string list"
  reg_hourlyRate :: "real option"

text \<open>What \<^verbatim>\<open>register\<close> and \<^verbatim>\<open>login\<close> return.\<close>

record user_response =
  resp_id :: oid
  resp_email :: string
  resp_firstName :: string
  resp_lastName :: string
  resp_role :: role
  resp_bio :: "string option"
  resp_skills :: "string list"
  resp_hourlyRate :: "real option"
  resp_lastLogin :: "nat option"

record auth_result =
  res_user :: user_response
  res_token :: token
  res_refreshToken :: token

definition userResponse :: "user \<Rightarrow> user_response" where
  "userResponse u =
     \<lparr> resp_id = user_id u, resp_email = email u, resp_firstName = firstName u,
       resp_lastName = lastName u, resp_role = role u, resp_bio = bio u,
       resp_skills = skills u, resp_hourlyRate = hourlyRate u, resp_lastLogin = lastLogin u \<rparr>"

subsection \<open>The collection and its queries\<close>

text \<open>
  The schema options \<^verbatim>\<open>lowercase\<close> and \<^verbatim>\<open>trim\<close> of \<^verbatim>\<open>email\<close> are setters:
  they run on the value a document stores and on the value a query filters by.
\<close>

definition email_setter :: "platform \<Rightarrow> string \<Rightarrow> string" where
  "email_setter X e = toLowerCase X (trim X e)"

definition User_findOne :: "(user \<Rightarrow> bool) \<Rightarrow> user list \<Rightarrow> user option" where
  "User_findOne q us = find q us"

text \<open>\<^verbatim>\<open>save()\<close> of a document read from the collection: it replaces the stored one.\<close>

fun User_save :: "user \<Rightarrow> user list \<Rightarrow> user list" where
  "User_save u' [] = []"
| "User_save u' (u # us) = (if user_id u = user_id u' then u' # us else u # User_save u' us)"

text \<open>
  The validators of \<^verbatim>\<open>userSchema\<close> on a new document, after the setters
  (\<^verbatim>\<open>trim\<close> on the names and the skills). A string's length is the number of its
  characters.
\<close>

definition userSchema_valid :: "platform \<Rightarrow> registration \<Rightarrow> bool" where
  "userSchema_valid X d \<longleftrightarrow>
     email_setter X (reg_email d) \<noteq> [] \<and> email_regex X (email_setter X (reg_email d)) \<and>
     6 \<le> length (reg_password d) \<and>
     trim X (reg_firstName d) \<noteq> [] \<and> length (trim X (reg_firstName d)) \<le> 50 \<and>
     trim X (reg_lastName d) \<noteq> [] \<and> length (trim X (reg_lastName d)) \<le> 50 \<and>
     (case reg_bio d of None \<Rightarrow> True | Some b \<Rightarrow> length b \<le> 1000) \<and>
     list_all (\<lambda>s. length (trim X s) \<le> 50) (reg_skills d) \<and>
     (case reg_hourlyRate d of None \<Rightarrow> True | Some r \<Rightarrow> 5 \<le> r \<and> r \<le> 1000)"

text \<open>
  \<^verbatim>\<open>new User(userData)\<close> followed by \<^verbatim>\<open>save()\<close>, the new document getting the
  identifier \<open>newId\<close>: validation, then the \<^verbatim>\<open>pre('save')\<close> hook that replaces the
  password by its hash (with the salt \<^verbatim>\<open>bcrypt.genSalt\<close> drew), then the insertion,
  which the unique index on \<^verbatim>\<open>email\<close> may refuse.
\<close>

definition User_create ::
  "platform \<Rightarrow> registration \<Rightarrow> oid \<Rightarrow> string \<Rightarrow> user list \<Rightarrow> (error + user) \<times> user list" where
  "User_create X d newId salt us =
     (if \<not> userSchema_valid X d then (Inl ValidationError, us)
      else
        (let u = \<lparr> user_id = newId, email = email_setter X (reg_email d),
                   password = bcrypt_hash X (reg_password d) salt,
                   firstName = trim X (reg_firstName d), lastName = trim X (reg_lastName d),
                   role = reg_role d, bio = reg_bio d, skills = map (trim X) (reg_skills d),
                   hourlyRate = reg_hourlyRate d, isActive = True, lastLogin = None,
                   refreshToken = None, passwordResetToken = None,
                   passwordResetExpires = None \<rparr>
         in if list_ex (\<lambda>v. user_id v = newId \<or> email v = email u) us
            then (Inl DuplicateKeyError, us)
            else (Inr u, us @ [u])))"

definition generateAuthToken :: "config \<Rightarrow> user \<Rightarrow> nat \<Rightarrow> token" where
  "generateAuthToken cfg u now =
     jwt_sign \<lparr> claim_userId = user_id u, claim_email = Some (email u), claim_role = Some (role u) \<rparr>
       (jwt_secret cfg) (jwt_expiresIn cfg) now"

definition generateRefreshToken :: "config \<Rightarrow> user \<Rightarrow> nat \<Rightarrow> token" where
  "generateRefreshToken cfg u now =
     jwt_sign \<lparr> claim_userId = user_id u, claim_email = None, claim_role = None \<rparr>
       (jwt_refreshSecret cfg) (jwt_refreshExpiresIn cfg) now"

section \<open>Accounts: the service (auth.service.ts)\<close>

text \<open>
  Each operation takes the collection and what the call draws from outside (the
  clock \<open>now\<close> in milliseconds, the salt, the random reset token, the identifier of a
  new document) and returns its outcome with the collection after it. The
  \<^verbatim>\<open>catch\<close> blocks log and rethrow; the one of \<^verbatim>\<open>refreshToken\<close> also turns a
  \<^verbatim>\<open>JsonWebTokenError\<close> into an \<^verbatim>\<open>ApiError\<close>.
\<close>

definition AuthService_register ::
  "platform \<Rightarrow> config \<Rightarrow> user list \<Rightarrow> registration \<Rightarrow> oid \<Rightarrow> string \<Rightarrow> nat
     \<Rightarrow> (error + auth_result) \<times> user list" where
  "AuthService_register X cfg us userData newId salt now =
     (case User_findOne (\<lambda>u. email u = email_setter X (reg_email userData)) us of
        Some existingUser \<Rightarrow> (Inl (ApiError 400 ''User already exists with this email''), us)
      | None \<Rightarrow>
          (case User_create X userData newId salt us of
             (Inl e, us1) \<Rightarrow> (Inl e, us1)
           | (Inr u, us1) \<Rightarrow>
               (let tok = generateAuthToken cfg u now;
                    rt = generateRefreshToken cfg u now;
                    u' = u\<lparr> refreshToken := Some rt \<rparr>
                in (Inr \<lparr> res_user = userResponse u', res_token = tok, res_refreshToken = rt \<rparr>,
                    User_save u' us1))))"

definition AuthService_login ::
  "platform \<Rightarrow> config \<Rightarrow> user list \<Rightarrow> string \<Rightarrow> string \<Rightarrow> bool \<Rightarrow> nat
     \<Rightarrow> (error + auth_result) \<times> user list" where
  "AuthService_login X cfg us em pw rememberMe now =
     (case User_findOne (\<lambda>u. email u = email_setter X em \<and> isActive u) us of
        None \<Rightarrow> (Inl (ApiError 401 ''Invalid email or password''), us)
      | Some u \<Rightarrow>
          if \<not> bcrypt_compare X pw (password u)
          then (Inl (ApiError 401 ''Invalid email or password''), us)
          else
            (let tok = generateAuthToken cfg u now;
                 rt = generateRefreshToken cfg u now;
                 u' = u\<lparr> lastLogin := Some now, refreshToken := Some rt \<rparr>
             in (Inr \<lparr> res_user = userResponse u', res_token = tok, res_refreshToken = rt \<rparr>,
                 User_save u' us)))"

definition AuthService_refreshToken ::
  "config \<Rightarrow> user list \<Rightarrow> token \<Rightarrow> nat \<Rightarrow> (error + token \<times> token) \<times> user list" where
  "AuthService_refreshToken cfg us rt now =
     (case jwt_verify rt (jwt_refreshSecret cfg) now of
        None \<Rightarrow> (Inl (ApiError 401 ''Invalid refresh token''), us)
      | Some decoded \<Rightarrow>
          (case User_findOne
                  (\<lambda>u. user_id u = claim_userId decoded \<and> refreshToken u = Some rt \<and> isActive u) us of
             None \<Rightarrow> (Inl (ApiError 401 ''Invalid refresh token''), us)
           | Some u \<Rightarrow>
               (let newToken = generateAuthToken cfg u now;
                    newRefreshToken = generateRefreshToken cfg u now
                in (Inr (newToken, newRefreshToken),
                    User_save (u\<lparr> refreshToken := Some newRefreshToken \<rparr>) us))))"

definition AuthService_forgotPassword ::
  "platform \<Rightarrow> user list \<Rightarrow> string \<Rightarrow> string \<Rightarrow> nat \<Rightarrow> (error + string) \<times> user list" where
  "AuthService_forgotPassword X us em resetToken now =
     (case User_findOne (\<lambda>u. email u = email_setter X em \<and> isActive u) us of
        None \<Rightarrow> (Inl (ApiError 404 ''No user found with this email address''), us)
      | Some u \<Rightarrow>
          (let hashedToken = sha256_hex X resetToken
           in (Inr resetToken,
               User_save (u\<lparr> passwordResetToken := Some hashedToken,
                              passwordResetExpires := Some (now + 10 * 60 * 1000) \<rparr>) us)))"

text \<open>
  In \<^verbatim>\<open>resetPassword\<close> the document is saved with a new password: the validator of
  \<^verbatim>\<open>password\<close> runs on it, then the hook hashes it.
\<close>

definition AuthService_resetPassword ::
  "platform \<Rightarrow> user list \<Rightarrow> string \<Rightarrow> string \<Rightarrow> string \<Rightarrow> nat \<Rightarrow> (error + unit) \<times> user list" where
  "AuthService_resetPassword X us tok newPassword salt now =
     (let hashedToken = sha256_hex X tok in
      case User_findOne
             (\<lambda>u. passwordResetToken u = Some hashedToken \<and>
                  (case passwordResetExpires u of None \<Rightarrow> False | Some e \<Rightarrow> now < e) \<and>
                  isActive u) us of
        None \<Rightarrow> (Inl (ApiError 400 ''Invalid or expired reset token''), us)
      | Some u \<Rightarrow>
          if length newPassword < 6 then (Inl ValidationError, us)
          else (Inr (),
                User_save (u\<lparr> password := bcrypt_hash X newPassword salt,
                               passwordResetToken := None,
                               passwordResetExpires := None \<rparr>) us))"

section \<open>Example data\<close>

text \<open>
  One instance of the platform, for the worked examples: identifiers are 24
  hexadecimal digits, printed in lower case; other strings are taken as already
  trimmed and in lower case; a hash
  is the input next to a tag or to the salt; the Joi base types accept a JSON value of
  their own type and convert nothing.
\<close>

definition sample_platform :: platform where
  "sample_platform =
     \<lparr> ObjectId_isValid =
         (\<lambda>s. length s = 24 \<and> list_all (\<lambda>c. c \<in> set ''0123456789abcdefABCDEF'') s),
       ObjectId_hex =
         (\<lambda>s. if length s = 24 \<and> list_all (\<lambda>c. c \<in> set ''0123456789abcdefABCDEF'') s
              then Some (map (\<lambda>c. case map_of (zip ''ABCDEF'' ''abcdef'') c of
                                      None \<Rightarrow> c | Some l \<Rightarrow> l) s)
              else None),
       attachment_regex = (\<lambda>s. take 4 s = ''http''),
       email_regex = (\<lambda>s. CHR ''@'' \<in> set s),
       toLowerCase = (\<lambda>s. s),
       trim = (\<lambda>s. s),
       sha256_hex = (\<lambda>s. ''sha256:'' @ s),
       bcrypt_hash = (\<lambda>p salt. salt @ ''$'' @ p),
       bcrypt_compare = (\<lambda>p h. drop 1 (dropWhile (\<lambda>c. c \<noteq> CHR ''$'') h) = p),
       Joi_number = (\<lambda>v. case v of JNumber n \<Rightarrow> Some n | _ \<Rightarrow> None),
       Joi_string = (\<lambda>v. case v of JString t \<Rightarrow> Some t | _ \<Rightarrow> None),
       Joi_array = (\<lambda>v. case v of JArray vs \<Rightarrow> Some vs | _ \<Rightarrow> None),
       Joi_uri = (\<lambda>s. take 4 s = ''http''),
       attachment_ext_regex = (\<lambda>s. True),
       Joi_message = (\<lambda>k c. k @ '': '' @ c) \<rparr>"

abbreviation (input) gigA :: oid where "gigA \<equiv> ''64a000000000000000000001''"
abbreviation (input) gigB :: oid where "gigB \<equiv> ''64a000000000000000000002''"
abbreviation (input) ownerC :: oid where "ownerC \<equiv> ''64c000000000000000000001''"
abbreviation (input) ownerD :: oid where "ownerD \<equiv> ''64c000000000000000000002''"
abbreviation (input) userF1 :: oid where "userF1 \<equiv> ''64f000000000000000000001''"
abbreviation (input) userF2 :: oid where "userF2 \<equiv> ''64f000000000000000000002''"
abbreviation (input) userF3 :: oid where "userF3 \<equiv> ''64f000000000000000000003''"
abbreviation (input) userF4 :: oid where "userF4 \<equiv> ''64f000000000000000000004''"
abbreviation (input) bidI1 :: oid where "bidI1 \<equiv> ''64b000000000000000000001''"
abbreviation (input) bidI2 :: oid where "bidI2 \<equiv> ''64b000000000000000000002''"
abbreviation (input) bidI3 :: oid where "bidI3 \<equiv> ''64b000000000000000000003''"
abbreviation (input) bidI4 :: oid where "bidI4 \<equiv> ''64b000000000000000000004''"
abbreviation (input) bidI5 :: oid where "bidI5 \<equiv> ''64b000000000000000000005''"

text \<open>An active gig of user C, an inactive gig of user C, an active gig of user D.\<close>

definition sample_gigs :: "gig list" where
  "sample_gigs =
     [\<lparr> gig_id = gigA, gig_freelancerId = ownerC, gig_isActive = True \<rparr>,
      \<lparr> gig_id = gigB, gig_freelancerId = ownerC, gig_isActive = False \<rparr>,
      \<lparr> gig_id = ''64a000000000000000000003'', gig_freelancerId = ownerD, gig_isActive = True \<rparr>]"

definition sample_bid :: "oid \<Rightarrow> oid \<Rightarrow> oid \<Rightarrow> oid \<Rightarrow> bid_status \<Rightarrow> bid" where
  "sample_bid i g f c st =
     \<lparr> bid_id = i, gigId = g, freelancerId = f, clientId = c, amount = 50, deliveryTime = 7,
       proposal = replicate 60 CHR ''p'', status = st, attachments = [] \<rparr>"

text \<open>
  Four bids on the first gig, three pending and one withdrawn, and a pending bid on
  the third gig.
\<close>

definition sample_bids :: "bid list" where
  "sample_bids =
     [sample_bid bidI1 gigA userF1 ownerC Pending,
      sample_bid bidI2 gigA userF2 ownerC Pending,
      sample_bid bidI3 gigA userF3 ownerC Pending,
      sample_bid bidI4 gigA userF4 ownerC Withdrawn,
      sample_bid bidI5 ''64a000000000000000000003'' userF1 ownerD Pending]"

definition sample_bidData :: "oid \<Rightarrow> bid_patch" where
  "sample_bidData g =
     no_patch\<lparr> patch_gigId := Some g, patch_amount := Some 50, patch_deliveryTime := Some 7,
               patch_proposal := Some (replicate 60 CHR ''p'') \<rparr>"

text \<open>
  The owners of the three gigs, and three requests served while the gigs change: the
  owner of the first gig bids on it; a freelancer bids on the third gig, the first
  having been deactivated and the second deleted meanwhile; a freelancer updates a bid.
\<close>

definition sample_owners :: "oid \<Rightarrow> oid option" where
  "sample_owners =
     map_of [(gigA, ownerC), (gigB, ownerC), (''64a000000000000000000003'', ownerD)]"

definition sample_steps :: "(gig list \<times> bid_request) list" where
  "sample_steps =
     [(sample_gigs, PostBid (sample_bidData gigA) ownerC ''64b000000000000000000006''),
      ([\<lparr> gig_id = gigA, gig_freelancerId = ownerC, gig_isActive = False \<rparr>,
        \<lparr> gig_id = ''64a000000000000000000003'', gig_freelancerId = ownerD, gig_isActive = True \<rparr>],
       PostBid (sample_bidData ''64a000000000000000000003'') userF2
         ''64b000000000000000000007''),
      (sample_gigs, PutBid bidI1 [(''amount'', JNumber 75)] userF1)]"

definition sample_user :: "oid \<Rightarrow> string \<Rightarrow> string \<Rightarrow> user" where
  "sample_user i e h =
     \<lparr> user_id = i, email = e, password = h, firstName = ''Ada'', lastName = ''Lee'',
       role = Freelancer, bio = None, skills = [], hourlyRate = None, isActive = True,
       lastLogin = None, refreshToken = None, passwordResetToken = None,
       passwordResetExpires = None \<rparr>"

definition sample_users :: "user list" where
  "sample_users =
     [sample_user userF1 ''a@b.com'' ''salt$Secret1'',
      sample_user userF2 ''c@d.com'' ''salt$Secret2'']"

definition sample_registration :: "string \<Rightarrow> registration" where
  "sample_registration e =
     \<lparr> reg_email = e, reg_password = ''Secret1'', reg_firstName = ''Ada'', reg_lastName = ''Lee'',
       reg_role = Freelancer, reg_bio = None, reg_skills = [], reg_hourlyRate = None \<rparr>"

text \<open>The refresh token user F1 gets during the second second of the clock.\<close>

definition sample_refresh_token :: token where
  "sample_refresh_token =
     JWT ''your-refresh-secret-key''
       \<lparr> claim_userId = userF1, claim_email = None, claim_role = None \<rparr> 1 2592001"

text \<open>The refresh token an outcome of \<^verbatim>\<open>login\<close> carries, if it is a success.\<close>

definition issued_refresh_token :: "(error + auth_result) \<times> user list \<Rightarrow> token option" where
  "issued_refresh_token out =
     (case fst out of Inl e \<Rightarrow> None | Inr r \<Rightarrow> Some (res_refreshToken r))"

text \<open>
  User F1 logs in twice within the second second of the clock, then asks for a reset
  token.
\<close>

definition sample_login :: "(error + auth_result) \<times> user list" where
  "sample_login =
     AuthService_login sample_platform default_config sample_users ''a@b.com'' ''Secret1'' False 1000"

definition sample_login_again :: "(error + auth_result) \<times> user list" where
  "sample_login_again =
     AuthService_login sample_platform default_config (snd sample_login)
       ''a@b.com'' ''Secret1'' False 1500"

definition sample_forgot :: "(error + string) \<times> user list" where
  "sample_forgot =
     AuthService_forgotPassword sample_platform (snd sample_login) ''a@b.com'' ''0f1e2d'' 100000"

text \<open>
  Or else: after the first login, user F1 logs in again, or refreshes, four seconds
  later; and after asking for the reset token, resets the password.
\<close>

definition sample_login_later :: "(error + auth_result) \<times> user list" where
  "sample_login_later =
     AuthService_login sample_platform default_config (snd sample_login)
       ''a@b.com'' ''Secret1'' False 5000"

definition sample_refresh :: "(error + token \<times> token) \<times> user list" where
  "sample_refresh =
     AuthService_refreshToken default_config (snd sample_login) sample_refresh_token 5000"

definition sample_reset :: "(error + unit) \<times> user list" where
  "sample_reset =
     AuthService_resetPassword sample_platform (snd sample_forgot) ''0f1e2d'' ''Secret2b''
       ''salt'' 200000"

definition sample_register :: "(error + auth_result) \<times> user list" where
  "sample_register =
     AuthService_register sample_platform default_config sample_users
       (sample_registration ''e@f.com'') ''64f000000000000000000009'' ''salt'' 1000"

section \<open>Lemmas on the collections\<close>

lemma find_Some_set: "find P xs = Some x \<Longrightarrow> x \<in> set xs \<and> P x"
  by (induction xs) (auto split: if_splits)

lemma find_exists: "\<exists>x\<in>set xs. P x \<Longrightarrow> \<exists>y. find P xs = Some y"
  by (cases "find P xs") (auto simp: find_None_iff)

lemma find_unique:
  assumes "distinct (map bid_id bs)" "b \<in> set bs" "P b" "\<forall>c. P c \<longrightarrow> bid_id c = bid_id b"
  shows "find P bs = Some b"
  using assms(1,2)
proof (induction bs)
  case Nil
  then show ?case by simp
next
  case (Cons a bs)
  show ?case
  proof (cases "P a")
    case True
    then have "bid_id a = bid_id b" using assms(4) by blast
    with Cons.prems have "a = b" by (auto simp: image_iff)
    with True show ?thesis by simp
  next
    case False
    with Cons.prems assms(3) have "b \<in> set bs" by auto
    moreover from Cons.prems have "distinct (map bid_id bs)" by simp
    ultimately have "find P bs = Some b" by (rule Cons.IH [rotated])
    with False show ?thesis by simp
  qed
qed

lemma find_by_id:
  "distinct (map bid_id bs) \<Longrightarrow> b \<in> set bs \<Longrightarrow> find (\<lambda>c. bid_id c = bid_id b) bs = Some b"
  by (rule find_unique) simp_all

lemma replace_doc_map:
  "distinct (map bid_id bs) \<Longrightarrow>
   replace_doc i b' bs = map (\<lambda>b. if bid_id b = i then b' else b) bs"
proof (induction bs)
  case Nil
  then show ?case by simp
next
  case (Cons a bs)
  show ?case
  proof (cases "bid_id a = i")
    case True
    with Cons.prems have "\<forall>c\<in>set bs. bid_id c \<noteq> i" by (auto simp: image_iff)
    then have "map (\<lambda>b. if bid_id b = i then b' else b) bs = bs"
      by (intro map_idI) simp
    with True show ?thesis by simp
  next
    case False
    with Cons show ?thesis by simp
  qed
qed

lemma bid_id_apply_patch [simp]: "bid_id (apply_patch p b) = bid_id b"
  by (simp add: apply_patch_def)

lemma apply_status_patch [simp]: "apply_patch (status_patch s) b = b\<lparr>status := s\<rparr>"
  by (simp add: apply_patch_def status_patch_def no_patch_def)

lemma ids_updateMany [simp]: "map bid_id (Bid_updateMany q p bs) = map bid_id bs"
  by (simp add: Bid_updateMany_def comp_def)

lemma update_status_by_id:
  assumes "distinct (map bid_id bs)" "b \<in> set bs"
  shows "Bid_findByIdAndUpdate (bid_id b) (status_patch s) bs =
           (Inr (Some (b\<lparr>status := s\<rparr>)),
            map (\<lambda>c. if bid_id c = bid_id b then b\<lparr>status := s\<rparr> else c) bs)"
  using assms by (simp add: Bid_findByIdAndUpdate_def find_by_id replace_doc_map Let_def)

text \<open>
  Claim C1. Let \<open>B\<close> be a pending bid of the collection whose \<open>clientId\<close> is the caller.
  Then \<^verbatim>\<open>updateBidStatus(B, accepted)\<close> succeeds and returns \<open>B\<close> accepted, and the
  collection afterwards is the one before where \<open>B\<close> is accepted, every other pending
  bid on the gig of \<open>B\<close> is rejected, and every other document is as it was: so the
  rejected and withdrawn bids on that gig keep their status.
\<close>
theorem accept_cascade:
  assumes ids: "distinct (map bid_id bs)"
    and B: "B \<in> set bs" "status B = Pending" "clientId B = caller"
    and valid: "ObjectId_isValid X (bid_id B)"
  shows "BidsService_updateBidStatus X bs (bid_id B) accepted caller =
           (Inr (Some (B\<lparr>status := Accepted\<rparr>)),
            map (\<lambda>b. if bid_id b = bid_id B then b\<lparr>status := Accepted\<rparr>
                      else if gigId b = gigId B \<and> status b = Pending then b\<lparr>status := Rejected\<rparr>
                      else b) bs)"
proof -
  let ?q = "\<lambda>b. gigId b = gigId B \<and> status b = Pending \<and> bid_id b \<noteq> bid_id B"
  let ?g = "\<lambda>b. if ?q b then b\<lparr>status := Rejected\<rparr> else b"
  let ?bs1 = "Bid_updateMany ?q (status_patch Rejected) bs"
  have found: "Bid_findOne (\<lambda>b. bid_id b = bid_id B \<and> clientId b = caller \<and> status b = Pending) bs = Some B"
    unfolding Bid_findOne_def
  proof (rule find_unique [OF ids B(1)])
    show "bid_id B = bid_id B \<and> clientId B = caller \<and> status B = Pending" using B by simp
  qed blast
  have bs1: "?bs1 = map ?g bs" by (simp add: Bid_updateMany_def)
  have ids1: "distinct (map bid_id ?bs1)" using ids by simp
  have "?g B = B" by simp
  then have B1: "B \<in> set ?bs1" unfolding bs1 set_map using B(1)
    by (intro image_eqI [where x = B]) simp_all
  have "BidsService_updateBidStatus X bs (bid_id B) accepted caller =
          Bid_findByIdAndUpdate (bid_id B) (status_patch Accepted) ?bs1"
    using valid found by (simp add: BidsService_updateBidStatus_def)
  also have "\<dots> = (Inr (Some (B\<lparr>status := Accepted\<rparr>)),
        map (\<lambda>c. if bid_id c = bid_id B then B\<lparr>status := Accepted\<rparr> else c) ?bs1)"
    by (rule update_status_by_id [OF ids1 B1])
  also have "map (\<lambda>c. if bid_id c = bid_id B then B\<lparr>status := Accepted\<rparr> else c) ?bs1 =
      map (\<lambda>b. if bid_id b = bid_id B then b\<lparr>status := Accepted\<rparr>
                else if gigId b = gigId B \<and> status b = Pending then b\<lparr>status := Rejected\<rparr>
                else b) bs"
  proof -
    have same: "c = B" if "c \<in> set bs" "bid_id c = bid_id B" for c
    proof -
      from ids have "inj_on bid_id (set bs)" by (simp add: distinct_map)
      then show ?thesis using that(2) that(1) B(1) by (rule inj_onD)
    qed
    show ?thesis unfolding bs1 map_map
    proof (rule map_cong [OF refl])
      fix c assume "c \<in> set bs"
      then show "((\<lambda>c. if bid_id c = bid_id B then B\<lparr>status := Accepted\<rparr> else c) \<circ> ?g) c =
        (if bid_id c = bid_id B then c\<lparr>status := Accepted\<rparr>
                else if gigId c = gigId B \<and> status c = Pending then c\<lparr>status := Rejected\<rparr>
                else c)"
        using same [of c] by (cases "bid_id c = bid_id B") simp_all
    qed
  qed
  finally show ?thesis .
qed


lemma map_replace_doc:
  "find (\<lambda>b. bid_id b = i) bs = Some b \<Longrightarrow> f b' = f b \<Longrightarrow> map f (replace_doc i b' bs) = map f bs"
  by (induction bs) (auto split: if_splits)

lemma findByIdAndUpdate_cases:
  "snd (Bid_findByIdAndUpdate i p bs) = bs \<or>
   (\<exists>b. find (\<lambda>b. bid_id b = i) bs = Some b \<and>
        Bid_findByIdAndUpdate i p bs = (Inr (Some (apply_patch p b)), replace_doc i (apply_patch p b) bs))"
  by (auto simp: Bid_findByIdAndUpdate_def Let_def split: option.splits)

lemma ids_findByIdAndUpdate [simp]:
  "map bid_id (snd (Bid_findByIdAndUpdate i p bs)) = map bid_id bs"
  using findByIdAndUpdate_cases [of i p bs]
  by (auto simp: map_replace_doc)

lemma Bid_create_cases:
  "(\<exists>e. Bid_create X f newId bs = (Inl e, bs)) \<or>
   (\<exists>b. Bid_create X f newId bs = (Inr b, bs @ [b]) \<and> bid_id b = newId \<and>
        newId \<notin> bid_id ` set bs \<and>
        patch_gigId f = Some (gigId b) \<and> patch_freelancerId f = Some (freelancerId b) \<and>
        patch_clientId f = Some (clientId b))"
  by (auto simp: Bid_create_def Let_def list_ex_iff split: option.splits)

lemma createBid_cases:
  "(\<exists>e. BidsService_createBid X gigs bs d f i = (Inl e, bs)) \<or>
   (\<exists>b G. BidsService_createBid X gigs bs d f i = (Inr b, bs @ [b]) \<and> bid_id b = i \<and>
        i \<notin> bid_id ` set bs \<and> patch_gigId d = Some (gigId b) \<and>
        ObjectId_hex X f = Some (freelancerId b) \<and>
        Gig_findById (gigId b) gigs = Some G \<and> gig_isActive G \<and> gig_freelancerId G \<noteq> f \<and>
        clientId b = gig_freelancerId G \<and>
        (\<forall>c\<in>set bs. \<not> (gigId c = gigId b \<and> freelancerId c = freelancerId b)))"
proof (cases "\<exists>e. BidsService_createBid X gigs bs d f i = (Inl e, bs)")
  case True
  then show ?thesis by simp
next
  case False
  then obtain g G fid where g: "patch_gigId d = Some g" "Gig_findById g gigs = Some G"
      "gig_isActive G" "gig_freelancerId G \<noteq> f" "ObjectId_hex X f = Some fid"
      and none: "Bid_findOne (\<lambda>b. Some (gigId b) = patch_gigId d \<and> freelancerId b = fid) bs = None"
    by (auto simp: BidsService_createBid_def split: option.splits if_splits)
  let ?d = "d\<lparr> patch_freelancerId := Some fid, patch_clientId := Some (gig_freelancerId G) \<rparr>"
  have eq: "BidsService_createBid X gigs bs d f i = Bid_create X ?d i bs"
    using g none by (simp add: BidsService_createBid_def)
  with False Bid_create_cases [of X ?d i bs] obtain b where
    b: "Bid_create X ?d i bs = (Inr b, bs @ [b])" "bid_id b = i" "i \<notin> bid_id ` set bs"
       "patch_gigId ?d = Some (gigId b)" "patch_freelancerId ?d = Some (freelancerId b)"
       "patch_clientId ?d = Some (clientId b)"
    by auto
  from none have "\<forall>c\<in>set bs. \<not> (Some (gigId c) = patch_gigId d \<and> freelancerId c = fid)"
    by (simp add: Bid_findOne_def find_None_iff)
  with b g eq show ?thesis by auto
qed

lemma updateBidStatus_cases:
  "snd (BidsService_updateBidStatus X bs i st c) = bs \<or>
   (\<exists>b. find (\<lambda>b. bid_id b = i \<and> clientId b = c \<and> status b = Pending) bs = Some b \<and>
        snd (BidsService_updateBidStatus X bs i st c) =
          snd (Bid_findByIdAndUpdate i (status_patch (decided st))
                 (if st = accepted
                  then Bid_updateMany (\<lambda>c. gigId c = gigId b \<and> status c = Pending \<and> bid_id c \<noteq> i)
                         (status_patch Rejected) bs
                  else bs)))"
  by (auto simp: BidsService_updateBidStatus_def Bid_findOne_def Let_def split: option.splits)

lemma updateBid_cases:
  "snd (BidsService_updateBid X bs i p f) = bs \<or>
   (\<exists>b. find (\<lambda>b. bid_id b = i \<and> freelancerId b = f \<and> status b = Pending) bs = Some b \<and>
        BidsService_updateBid X bs i p f = Bid_findByIdAndUpdate i p bs)"
  by (auto simp: BidsService_updateBid_def Bid_findOne_def split: option.splits)

lemma withdrawBid_cases:
  "snd (BidsService_withdrawBid X bs i f) = bs \<or>
   (\<exists>b. find (\<lambda>b. bid_id b = i \<and> freelancerId b = f \<and> status b = Pending) bs = Some b \<and>
        snd (BidsService_withdrawBid X bs i f) = snd (Bid_findByIdAndUpdate i (status_patch Withdrawn) bs))"
  by (auto simp: BidsService_withdrawBid_def Bid_findOne_def split: option.splits sum.splits prod.splits)

lemma unique_ids_exec_op: "unique_ids bs \<Longrightarrow> unique_ids (exec_op X gigs bs op)"
proof (cases op)
  case (CreateBid d f i)
  assume "unique_ids bs"
  with createBid_cases [of X gigs bs d f i] CreateBid show ?thesis
    by (auto simp: unique_ids_def)
next
  case (UpdateBid i p f)
  assume "unique_ids bs"
  with updateBid_cases [of X bs i p f] UpdateBid show ?thesis
    by (auto simp: unique_ids_def)
next
  case (UpdateBidStatus i st c)
  assume "unique_ids bs"
  with updateBidStatus_cases [of X bs i st c] UpdateBidStatus show ?thesis
    by (auto simp: unique_ids_def)
next
  case (WithdrawBid i f)
  assume "unique_ids bs"
  with withdrawBid_cases [of X bs i f] WithdrawBid show ?thesis
    by (auto simp: unique_ids_def)
qed

text \<open>A document other than the one addressed survives an update by identifier.\<close>

lemma other_kept_findByIdAndUpdate:
  assumes "distinct (map bid_id bs)" "t \<in> set bs" "bid_id t \<noteq> i"
  shows "t \<in> set (snd (Bid_findByIdAndUpdate i p bs))"
proof -
  from findByIdAndUpdate_cases [of i p bs] show ?thesis
  proof
    assume "snd (Bid_findByIdAndUpdate i p bs) = bs"
    with assms(2) show ?thesis by simp
  next
    assume "\<exists>b. find (\<lambda>b. bid_id b = i) bs = Some b \<and>
        Bid_findByIdAndUpdate i p bs = (Inr (Some (apply_patch p b)), replace_doc i (apply_patch p b) bs)"
    then obtain b where
      "snd (Bid_findByIdAndUpdate i p bs) = replace_doc i (apply_patch p b) bs" by auto
    also have "\<dots> = map (\<lambda>c. if bid_id c = i then apply_patch p b else c) bs"
      using assms(1) by (rule replace_doc_map)
    finally show ?thesis using assms(2,3) by (auto simp: image_iff intro!: bexI [of _ t])
  qed
qed

text \<open>The document a guarded query found is the one its identifier names.\<close>

lemma pending_guard:
  assumes "distinct (map bid_id bs)" "find (\<lambda>b. bid_id b = i \<and> Q b \<and> status b = Pending) bs = Some b"
    and "t \<in> set bs" "status t \<noteq> Pending"
  shows "bid_id t \<noteq> i"
proof
  assume "bid_id t = i"
  from assms(2) have b: "b \<in> set bs" "bid_id b = i" "status b = Pending"
    using find_Some_set [of _ bs b] by auto
  from assms(1) have "inj_on bid_id (set bs)" by (simp add: distinct_map)
  with b(1,2) assms(3) \<open>bid_id t = i\<close> have "t = b" by (auto dest: inj_onD)
  with b(3) assms(4) show False by simp
qed

lemma terminal_kept_exec_op:
  assumes ids: "unique_ids bs" and t: "t \<in> set bs" "status t \<noteq> Pending"
  shows "t \<in> set (exec_op X gigs bs op)"
proof (cases op)
  case (CreateBid d f i)
  with createBid_cases [of X gigs bs d f i] t(1) show ?thesis by auto
next
  case (UpdateBid i p f)
  from updateBid_cases [of X bs i p f] show ?thesis
  proof
    assume "snd (BidsService_updateBid X bs i p f) = bs"
    with UpdateBid t(1) show ?thesis by simp
  next
    assume "\<exists>b. find (\<lambda>b. bid_id b = i \<and> freelancerId b = f \<and> status b = Pending) bs = Some b \<and>
        BidsService_updateBid X bs i p f = Bid_findByIdAndUpdate i p bs"
    then obtain b where b: "find (\<lambda>b. bid_id b = i \<and> freelancerId b = f \<and> status b = Pending) bs = Some b"
      and eq: "BidsService_updateBid X bs i p f = Bid_findByIdAndUpdate i p bs" by blast
    have "bid_id t \<noteq> i" using ids b t unfolding unique_ids_def by (rule pending_guard)
    with ids t(1) have "t \<in> set (snd (Bid_findByIdAndUpdate i p bs))"
      unfolding unique_ids_def by (intro other_kept_findByIdAndUpdate)
    with UpdateBid eq show ?thesis by simp
  qed
next
  case (UpdateBidStatus i st c)
  from updateBidStatus_cases [of X bs i st c] show ?thesis
  proof
    assume "snd (BidsService_updateBidStatus X bs i st c) = bs"
    with UpdateBidStatus t(1) show ?thesis by simp
  next
    assume "\<exists>b. find (\<lambda>b. bid_id b = i \<and> clientId b = c \<and> status b = Pending) bs = Some b \<and>
        snd (BidsService_updateBidStatus X bs i st c) =
          snd (Bid_findByIdAndUpdate i (status_patch (decided st))
                 (if st = accepted
                  then Bid_updateMany (\<lambda>c. gigId c = gigId b \<and> status c = Pending \<and> bid_id c \<noteq> i)
                         (status_patch Rejected) bs
                  else bs))"
    then obtain b bs1 where b: "find (\<lambda>b. bid_id b = i \<and> clientId b = c \<and> status b = Pending) bs = Some b"
      and bs1: "bs1 = (if st = accepted
                  then Bid_updateMany (\<lambda>c. gigId c = gigId b \<and> status c = Pending \<and> bid_id c \<noteq> i)
                         (status_patch Rejected) bs
                  else bs)"
      and eq: "snd (BidsService_updateBidStatus X bs i st c) =
          snd (Bid_findByIdAndUpdate i (status_patch (decided st)) bs1)" by blast
    have neq: "bid_id t \<noteq> i" using ids b t unfolding unique_ids_def by (rule pending_guard)
    have ids1: "distinct (map bid_id bs1)" using ids by (simp add: bs1 unique_ids_def)
    have "t \<in> set bs1" using t by (auto simp: bs1 Bid_updateMany_def image_iff intro!: bexI [of _ t])
    with ids1 neq have "t \<in> set (snd (Bid_findByIdAndUpdate i (status_patch (decided st)) bs1))"
      by (intro other_kept_findByIdAndUpdate)
    with UpdateBidStatus eq show ?thesis by simp
  qed
next
  case (WithdrawBid i f)
  from withdrawBid_cases [of X bs i f] show ?thesis
  proof
    assume "snd (BidsService_withdrawBid X bs i f) = bs"
    with WithdrawBid t(1) show ?thesis by simp
  next
    assume "\<exists>b. find (\<lambda>b. bid_id b = i \<and> freelancerId b = f \<and> status b = Pending) bs = Some b \<and>
        snd (BidsService_withdrawBid X bs i f) = snd (Bid_findByIdAndUpdate i (status_patch Withdrawn) bs)"
    then obtain b where b: "find (\<lambda>b. bid_id b = i \<and> freelancerId b = f \<and> status b = Pending) bs = Some b"
      and eq: "snd (BidsService_withdrawBid X bs i f) = snd (Bid_findByIdAndUpdate i (status_patch Withdrawn) bs)"
      by blast
    have "bid_id t \<noteq> i" using ids b t unfolding unique_ids_def by (rule pending_guard)
    with ids t(1) have "t \<in> set (snd (Bid_findByIdAndUpdate i (status_patch Withdrawn) bs))"
      unfolding unique_ids_def by (intro other_kept_findByIdAndUpdate)
    with WithdrawBid eq show ?thesis by simp
  qed
qed

lemma run_ops_invariants:
  "unique_ids bs \<Longrightarrow> t \<in> set bs \<Longrightarrow> status t \<noteq> Pending \<Longrightarrow>
   unique_ids (run_ops X gigs bs ops) \<and> t \<in> set (run_ops X gigs bs ops)"
proof (induction ops arbitrary: bs)
  case Nil
  then show ?case by (simp add: run_ops_def)
next
  case (Cons op ops)
  have "unique_ids (exec_op X gigs bs op)" using Cons.prems(1) by (rule unique_ids_exec_op)
  moreover have "t \<in> set (exec_op X gigs bs op)" using Cons.prems by (rule terminal_kept_exec_op)
  ultimately have "unique_ids (run_ops X gigs (exec_op X gigs bs op) ops) \<and>
      t \<in> set (run_ops X gigs (exec_op X gigs bs op) ops)"
    using Cons.prems(3) by (intro Cons.IH)
  then show ?case by (simp add: run_ops_def)
qed

text \<open>
  Claim C2. Once a bid is accepted, rejected or withdrawn, no sequence of operations of
  the bids service (\<^verbatim>\<open>createBid\<close>, \<^verbatim>\<open>updateBid\<close> with any update,
  \<^verbatim>\<open>updateBidStatus\<close> with its cascade, \<^verbatim>\<open>withdrawBid\<close>) changes its status:
  only a pending bid moves.
\<close>
theorem terminal_status_is_final:
  assumes "unique_ids bs" and "status_of i bs = Some s" and "s \<noteq> Pending"
  shows "status_of i (run_ops X gigs bs ops) = Some s"
proof -
  from assms(2) obtain t where t: "find (\<lambda>b. bid_id b = i) bs = Some t" "status t = s"
    by (auto simp: status_of_def)
  then have t': "t \<in> set bs" "bid_id t = i" using find_Some_set [of _ bs t] by auto
  from assms(1) t'(1) t(2) assms(3)
  have inv: "unique_ids (run_ops X gigs bs ops) \<and> t \<in> set (run_ops X gigs bs ops)"
    by (intro run_ops_invariants) simp_all
  then have "find (\<lambda>c. bid_id c = bid_id t) (run_ops X gigs bs ops) = Some t"
    unfolding unique_ids_def by (intro find_by_id) simp_all
  with t(2) t'(2) show ?thesis by (simp add: status_of_def)
qed


subsection \<open>The public interface keeps identities\<close>

lemma identity_apply_patch:
  "patch_gigId p = None \<Longrightarrow> patch_freelancerId p = None \<Longrightarrow> patch_clientId p = None \<Longrightarrow>
   identity_of (apply_patch p b) = identity_of b"
  by (simp add: identity_of_def apply_patch_def)

lemma identity_findByIdAndUpdate:
  assumes "patch_gigId p = None" "patch_freelancerId p = None" "patch_clientId p = None"
  shows "map identity_of (snd (Bid_findByIdAndUpdate i p bs)) = map identity_of bs"
  using findByIdAndUpdate_cases [of i p bs] assms
  by (auto simp: map_replace_doc identity_apply_patch)

lemma identity_updateMany:
  assumes "patch_gigId p = None" "patch_freelancerId p = None" "patch_clientId p = None"
  shows "map identity_of (Bid_updateMany q p bs) = map identity_of bs"
  using assms by (simp add: Bid_updateMany_def identity_apply_patch)

lemma status_patch_keys [simp]:
  "patch_gigId (status_patch s) = None" "patch_freelancerId (status_patch s) = None"
  "patch_clientId (status_patch s) = None"
  by (simp_all add: status_patch_def no_patch_def)

lemma validated_patch:
  assumes "updateBidSchema_validate X b = Inr v"
  shows "\<exists>a d p ats. v = no_patch\<lparr> patch_amount := a, patch_deliveryTime := d,
                                   patch_proposal := p, patch_attachments := ats \<rparr>"
  using assms by (auto simp: updateBidSchema_validate_def split: sum.splits option.splits)

lemma validated_patch_keys:
  assumes "updateBidSchema_validate X b = Inr v"
  shows "patch_gigId v = None" "patch_freelancerId v = None" "patch_clientId v = None"
    "patch_status v = None"
  using validated_patch [OF assms] by (auto simp: no_patch_def)

text \<open>
  A request leaves the identities as they are, or is a \<^verbatim>\<open>createBid\<close> that adds one
  bid: by the caller, cast, on a gig found in the collection that the caller's string
  does not name as its owner.
\<close>

lemma serve_identity:
  "map identity_of (serve X gigs bs r) = map identity_of bs \<or>
   (\<exists>b G d f i. r = PostBid d f i \<and>
        map identity_of (serve X gigs bs r) = map identity_of bs @ [identity_of b] \<and>
        (gigId b, freelancerId b) \<notin> (\<lambda>c. (gigId c, freelancerId c)) ` set bs \<and>
        ObjectId_hex X f = Some (freelancerId b) \<and>
        Gig_findById (gigId b) gigs = Some G \<and> gig_freelancerId G \<noteq> f)"
proof (cases r)
  case (PostBid d f i)
  from createBid_cases [of X gigs bs d f i] show ?thesis
  proof
    assume "\<exists>e. BidsService_createBid X gigs bs d f i = (Inl e, bs)"
    with PostBid show ?thesis by auto
  next
    assume "\<exists>b G. BidsService_createBid X gigs bs d f i = (Inr b, bs @ [b]) \<and> bid_id b = i \<and>
        i \<notin> bid_id ` set bs \<and> patch_gigId d = Some (gigId b) \<and>
        ObjectId_hex X f = Some (freelancerId b) \<and>
        Gig_findById (gigId b) gigs = Some G \<and> gig_isActive G \<and> gig_freelancerId G \<noteq> f \<and>
        clientId b = gig_freelancerId G \<and>
        (\<forall>c\<in>set bs. \<not> (gigId c = gigId b \<and> freelancerId c = freelancerId b))"
    then obtain b G where b: "BidsService_createBid X gigs bs d f i = (Inr b, bs @ [b])"
      "ObjectId_hex X f = Some (freelancerId b)" "Gig_findById (gigId b) gigs = Some G"
      "gig_freelancerId G \<noteq> f"
      "\<forall>c\<in>set bs. \<not> (gigId c = gigId b \<and> freelancerId c = freelancerId b)" by blast
    have "map identity_of (serve X gigs bs r) = map identity_of bs @ [identity_of b]"
      using PostBid b(1) by simp
    moreover have "(gigId b, freelancerId b) \<notin> (\<lambda>c. (gigId c, freelancerId c)) ` set bs"
      using b(5) by auto
    ultimately show ?thesis using PostBid b(2,3,4) by blast
  qed
next
  case (PutBid i body f)
  show ?thesis
  proof (cases "updateBidSchema_validate X body")
    case (Inl e)
    with PutBid show ?thesis by (simp add: BidsController_updateBid_def)
  next
    case (Inr v)
    then have eq: "serve X gigs bs r = snd (BidsService_updateBid X bs i v f)"
      using PutBid by (simp add: BidsController_updateBid_def)
    from updateBid_cases [of X bs i v f] have
      "snd (BidsService_updateBid X bs i v f) = bs \<or>
       snd (BidsService_updateBid X bs i v f) = snd (Bid_findByIdAndUpdate i v bs)" by auto
    then have "map identity_of (snd (BidsService_updateBid X bs i v f)) = map identity_of bs"
      using validated_patch_keys [OF Inr] by (auto simp: identity_findByIdAndUpdate)
    with eq show ?thesis by simp
  qed
next
  case (PatchBidStatus i st c)
  from updateBidStatus_cases [of X bs i st c]
  have "map identity_of (snd (BidsService_updateBidStatus X bs i st c)) = map identity_of bs"
    by (auto simp: identity_findByIdAndUpdate identity_updateMany)
  with PatchBidStatus show ?thesis by simp
next
  case (DeleteBid i f)
  from withdrawBid_cases [of X bs i f]
  have "map identity_of (snd (BidsService_withdrawBid X bs i f)) = map identity_of bs"
    by (auto simp: identity_findByIdAndUpdate)
  with DeleteBid show ?thesis by simp
qed


lemma pairs_identity:
  "(\<lambda>c. (gigId c, freelancerId c)) ` set bs = (\<lambda>(i, g, f, c). (g, f)) ` set (map identity_of bs)"
  by (force simp: identity_of_def)




text \<open>No bid by the owner of its gig: what one request, and then a sequence, keeps.\<close>

lemma Gig_findById_Some:
  "Gig_findById i gigs = Some G \<Longrightarrow> G \<in> set gigs \<and> gig_id G = i"
  unfolding Gig_findById_def by (auto dest: find_Some_set)

lemma no_own_gig_bid_identity:
  "no_own_gig_bid own bs \<longleftrightarrow>
   list_all (\<lambda>(i, g, f, c). own g \<noteq> Some f) (map identity_of bs)"
  by (induction bs) (simp_all add: no_own_gig_bid_def identity_of_def)

lemma serve_no_own_gig_bid:
  assumes gigs: "keeps_owners own gigs" and caller: "printed_caller X r"
    and inv: "no_own_gig_bid own bs"
  shows "no_own_gig_bid own (serve X gigs bs r)"
proof -
  let ?ok = "\<lambda>(i :: oid, g :: oid, f :: oid, c :: oid). own g \<noteq> Some f"
  from inv have d: "list_all ?ok (map identity_of bs)"
    by (simp only: no_own_gig_bid_identity)
  from serve_identity [of X gigs bs r] show ?thesis
  proof
    assume "map identity_of (serve X gigs bs r) = map identity_of bs"
    with d show ?thesis by (simp only: no_own_gig_bid_identity)
  next
    assume "\<exists>b G d f i. r = PostBid d f i \<and>
        map identity_of (serve X gigs bs r) = map identity_of bs @ [identity_of b] \<and>
        (gigId b, freelancerId b) \<notin> (\<lambda>c. (gigId c, freelancerId c)) ` set bs \<and>
        ObjectId_hex X f = Some (freelancerId b) \<and>
        Gig_findById (gigId b) gigs = Some G \<and> gig_freelancerId G \<noteq> f"
    then obtain b G d f i where r: "r = PostBid d f i"
      and eq: "map identity_of (serve X gigs bs r) = map identity_of bs @ [identity_of b]"
      and hex: "ObjectId_hex X f = Some (freelancerId b)"
      and G: "Gig_findById (gigId b) gigs = Some G" "gig_freelancerId G \<noteq> f" by blast
    from caller r hex have f: "freelancerId b = f" by simp
    from G(1) have "G \<in> set gigs" "gig_id G = gigId b" by (auto dest: Gig_findById_Some)
    with gigs have "own (gigId b) = Some (gig_freelancerId G)"
      by (auto simp: keeps_owners_def list_all_iff)
    with G(2) f have "?ok (identity_of b)" by (simp add: identity_of_def)
    with d have "list_all ?ok (map identity_of bs @ [identity_of b])" by simp
    then show ?thesis by (simp only: no_own_gig_bid_identity eq)
  qed
qed

lemma serve_each_no_own_gig_bid:
  "list_all (\<lambda>(gigs, r). keeps_owners own gigs \<and> printed_caller X r) steps \<Longrightarrow>
   no_own_gig_bid own bs \<Longrightarrow> no_own_gig_bid own (serve_each X bs steps)"
proof (induction steps arbitrary: bs)
  case Nil
  then show ?case by (simp add: serve_each_def)
next
  case (Cons step steps)
  obtain gigs r where step: "step = (gigs, r)" by (cases step)
  from Cons.prems(1) step have now: "keeps_owners own gigs" "printed_caller X r"
    and later: "list_all (\<lambda>(gigs, r). keeps_owners own gigs \<and> printed_caller X r) steps"
    by simp_all
  from now Cons.prems(2) have "no_own_gig_bid own (serve X gigs bs r)"
    by (rule serve_no_own_gig_bid)
  with later have "no_own_gig_bid own (serve_each X (serve X gigs bs r) steps)"
    by (rule Cons.IH)
  then show ?case by (simp add: serve_each_def step)
qed


text \<open>
  Claim C8, as amended. \<^verbatim>\<open>createBid\<close> with, as \<^verbatim>\<open>freelancerId\<close>, the string the
  owner of the gig prints creates no bid: it fails with
  \<^verbatim>\<open>ApiError(400, 'You cannot bid on your own gig')\<close> when the gig is active, and with
  \<^verbatim>\<open>ApiError(404, 'Gig not found or is not active')\<close> when it is not. And if no bid
  is by the owner of its gig, none is after any requests at the public interface,
  whatever becomes of the gigs meanwhile, as long as every gig keeps its owner and
  every caller of \<^verbatim>\<open>createBid\<close> is named as an access token names it.
\<close>

theorem own_gig_bid_refused:
  assumes gig: "Gig_findById g gigs = Some G" "gig_freelancerId G = f"
    and d: "patch_gigId d = Some g"
    and steps: "list_all (\<lambda>(gigs', r). keeps_owners own gigs' \<and> printed_caller X r) steps"
    and inv: "no_own_gig_bid own bs"
  shows "BidsService_createBid X gigs bs d f i =
           (Inl (if gig_isActive G then ApiError 400 ''You cannot bid on your own gig''
                 else ApiError 404 ''Gig not found or is not active''), bs)
         \<and> no_own_gig_bid own (serve_each X bs steps)"
proof -
  have "BidsService_createBid X gigs bs d f i =
           (Inl (if gig_isActive G then ApiError 400 ''You cannot bid on your own gig''
                 else ApiError 404 ''Gig not found or is not active''), bs)"
    using gig d by (simp add: BidsService_createBid_def)
  moreover have "no_own_gig_bid own (serve_each X bs steps)"
    using steps inv by (rule serve_each_no_own_gig_bid)
  ultimately show ?thesis by simp
qed

text \<open>
  Claim C10. When \<^verbatim>\<open>updateBid\<close> of the controller succeeds, the bid of the URL was
  a pending bid of the caller, and the collection afterwards differs from the one
  before in the amount, the delivery time, the proposal and the attachments of that
  bid at most: its identifier, status, gig, freelancer and client, and every other
  bid, are as they were.
\<close>
theorem update_changes_content_only:
  assumes ok: "BidsController_updateBid X bs body bidId caller = (Inr r, bs')"
    and ids: "unique_ids bs"
  shows "\<exists>b a d p ats.
           b \<in> set bs \<and> bid_id b = bidId \<and> freelancerId b = caller \<and> status b = Pending \<and>
           r = Some (b\<lparr>amount := a, deliveryTime := d, proposal := p, attachments := ats\<rparr>) \<and>
           bs' = map (\<lambda>c. if bid_id c = bidId
                           then c\<lparr>amount := a, deliveryTime := d, proposal := p, attachments := ats\<rparr>
                           else c) bs"
proof -
  from ok obtain v where v: "updateBidSchema_validate X body = Inr v"
    and svc: "BidsService_updateBid X bs bidId v caller = (Inr r, bs')"
    by (auto simp: BidsController_updateBid_def split: sum.splits)
  from svc obtain b where
    b: "find (\<lambda>b. bid_id b = bidId \<and> freelancerId b = caller \<and> status b = Pending) bs = Some b"
    and upd: "Bid_findByIdAndUpdate bidId v bs = (Inr r, bs')"
    by (auto simp: BidsService_updateBid_def Bid_findOne_def split: if_splits option.splits)
  from b have b': "b \<in> set bs" "bid_id b = bidId" "freelancerId b = caller" "status b = Pending"
    using find_Some_set [of _ bs b] by auto
  from ids b'(1) have fb: "find (\<lambda>c. bid_id c = bid_id b) bs = Some b"
    unfolding unique_ids_def by (rule find_by_id)
  from validated_patch [OF v] obtain a0 d0 p0 ats0 where
    v': "v = no_patch\<lparr> patch_amount := a0, patch_deliveryTime := d0,
                        patch_proposal := p0, patch_attachments := ats0 \<rparr>" by blast
  define a where "a = (case a0 of None \<Rightarrow> amount b | Some x \<Rightarrow> x)"
  define d where "d = (case d0 of None \<Rightarrow> deliveryTime b | Some x \<Rightarrow> x)"
  define p where "p = (case p0 of None \<Rightarrow> proposal b | Some x \<Rightarrow> x)"
  define ats where "ats = (case ats0 of None \<Rightarrow> attachments b | Some x \<Rightarrow> x)"
  have ap: "apply_patch v b = b\<lparr>amount := a, deliveryTime := d, proposal := p, attachments := ats\<rparr>"
    by (simp add: v' apply_patch_def no_patch_def a_def d_def p_def ats_def)
  have "Bid_findByIdAndUpdate bidId v bs =
          (Inr (Some (apply_patch v b)), replace_doc bidId (apply_patch v b) bs)"
    using fb b'(2) by (simp add: Bid_findByIdAndUpdate_def Let_def ap)
  with upd have r: "r = Some (apply_patch v b)" and bs': "bs' = replace_doc bidId (apply_patch v b) bs"
    by simp_all
  have same: "c = b" if "c \<in> set bs" "bid_id c = bidId" for c
  proof -
    from ids have "inj_on bid_id (set bs)" by (simp add: unique_ids_def distinct_map)
    then show ?thesis using that b'(1,2) by (auto dest: inj_onD)
  qed
  have "bs' = map (\<lambda>c. if bid_id c = bidId then apply_patch v b else c) bs"
    unfolding bs' using ids unfolding unique_ids_def by (rule replace_doc_map)
  also have "\<dots> = map (\<lambda>c. if bid_id c = bidId
                           then c\<lparr>amount := a, deliveryTime := d, proposal := p, attachments := ats\<rparr>
                           else c) bs"
  proof (rule map_cong [OF refl])
    fix c assume "c \<in> set bs"
    then show "(if bid_id c = bidId then apply_patch v b else c) =
      (if bid_id c = bidId then c\<lparr>amount := a, deliveryTime := d, proposal := p, attachments := ats\<rparr> else c)"
      using same [of c] ap by (cases "bid_id c = bidId") simp_all
  qed
  finally show ?thesis using b' r ap by blast
qed

section \<open>Accounts: properties\<close>

lemma User_save_map:
  "distinct (map user_id us) \<Longrightarrow>
   User_save u' us = map (\<lambda>u. if user_id u = user_id u' then u' else u) us"
proof (induction us)
  case Nil
  then show ?case by simp
next
  case (Cons a us)
  show ?case
  proof (cases "user_id a = user_id u'")
    case True
    with Cons.prems have "\<forall>c\<in>set us. user_id c \<noteq> user_id u'" by (auto simp: image_iff)
    then have "map (\<lambda>u. if user_id u = user_id u' then u' else u) us = us"
      by (intro map_idI) simp
    with True show ?thesis by simp
  next
    case False
    with Cons show ?thesis by simp
  qed
qed

lemma User_save_append:
  "\<forall>v\<in>set us. user_id v \<noteq> user_id u' \<Longrightarrow> user_id u = user_id u' \<Longrightarrow>
   User_save u' (us @ [u]) = us @ [u']"
  by (induction us) simp_all

lemma verify_userId:
  "jwt_verify t k n = Some c \<Longrightarrow> token_userId t = Some (claim_userId c)"
  by (cases t) (auto split: if_splits)

text \<open>A refresh token is accepted only if a user stores it.\<close>

lemma refresh_needs_stored:
  assumes "\<forall>u\<in>set us. Some (user_id u) = token_userId rt \<longrightarrow> refreshToken u \<noteq> Some rt"
  shows "AuthService_refreshToken cfg us rt now = (Inl (ApiError 401 ''Invalid refresh token''), us)"
proof (cases "jwt_verify rt (jwt_refreshSecret cfg) now")
  case None
  then show ?thesis by (simp add: AuthService_refreshToken_def)
next
  case (Some decoded)
  then have "token_userId rt = Some (claim_userId decoded)" by (rule verify_userId)
  with assms have "\<forall>u\<in>set us. \<not> (user_id u = claim_userId decoded \<and> refreshToken u = Some rt \<and> isActive u)"
    by auto
  then have "User_findOne (\<lambda>u. user_id u = claim_userId decoded \<and> refreshToken u = Some rt \<and> isActive u) us = None"
    by (simp add: User_findOne_def find_None_iff)
  with Some show ?thesis by (simp add: AuthService_refreshToken_def)
qed

lemma login_success:
  assumes "AuthService_login X cfg us em pw rm now = (Inr r, us')"
  shows "\<exists>u. u \<in> set us \<and> resp_id (res_user r) = user_id u \<and>
          us' = User_save (u\<lparr> lastLogin := Some now, refreshToken := Some (res_refreshToken r) \<rparr>) us"
proof -
  from assms obtain u where
    u: "User_findOne (\<lambda>u. email u = email_setter X em \<and> isActive u) us = Some u"
    by (auto simp: AuthService_login_def split: option.splits)
  then have "u \<in> set us" by (auto simp: User_findOne_def dest: find_Some_set)
  moreover from assms u have "resp_id (res_user r) = user_id u \<and>
          us' = User_save (u\<lparr> lastLogin := Some now, refreshToken := Some (res_refreshToken r) \<rparr>) us"
    by (auto simp: AuthService_login_def Let_def userResponse_def split: if_splits)
  ultimately show ?thesis by blast
qed

lemma refresh_success:
  assumes "AuthService_refreshToken cfg us t now = (Inr (a, new), us')"
  shows "\<exists>u. u \<in> set us \<and> token_userId t = Some (user_id u) \<and>
          us' = User_save (u\<lparr> refreshToken := Some new \<rparr>) us"
proof -
  from assms obtain decoded where d: "jwt_verify t (jwt_refreshSecret cfg) now = Some decoded"
    by (auto simp: AuthService_refreshToken_def split: option.splits)
  with assms obtain u where
    u: "User_findOne (\<lambda>u. user_id u = claim_userId decoded \<and> refreshToken u = Some t \<and> isActive u) us = Some u"
    by (auto simp: AuthService_refreshToken_def split: option.splits)
  then have in_us: "u \<in> set us" "user_id u = claim_userId decoded"
    by (auto simp: User_findOne_def dest: find_Some_set)
  from assms d u have "us' = User_save (u\<lparr> refreshToken := Some new \<rparr>) us"
    by (auto simp: AuthService_refreshToken_def Let_def)
  with in_us verify_userId [OF d] show ?thesis by auto
qed

text \<open>After a user's stored token is replaced, any other token of that user is refused.\<close>

lemma replaced_token_refused:
  assumes ids: "distinct (map user_id us)"
    and us': "us' = User_save u' us" and new: "refreshToken u' = Some new"
    and old: "token_userId old = Some (user_id u')" "old \<noteq> new"
  shows "AuthService_refreshToken cfg us' old now = (Inl (ApiError 401 ''Invalid refresh token''), us')"
proof (rule refresh_needs_stored, rule ballI, rule impI)
  fix v assume v: "v \<in> set us'" "Some (user_id v) = token_userId old"
  from ids have "us' = map (\<lambda>u. if user_id u = user_id u' then u' else u) us"
    unfolding us' by (rule User_save_map)
  with v(1) obtain w where "w \<in> set us" "v = (if user_id w = user_id u' then u' else w)" by auto
  with v(2) old(1) have "v = u'" by (auto split: if_splits)
  with new old(2) show "refreshToken v \<noteq> Some old" by simp
qed

text \<open>
  Claim C4, as amended. When a login, or a refresh, has issued a refresh token to a
  user, \<^verbatim>\<open>refreshToken\<close> refuses with \<^verbatim>\<open>ApiError(401, 'Invalid refresh token')\<close>
  every token of that user other than the one just issued, since it accepts a token
  only when the user's document stores it.
\<close>
theorem rotation_refuses_previous_token:
  assumes ids: "distinct (map user_id us)"
  shows "(AuthService_login X cfg us em pw rm now = (Inr r, us1) \<and>
            token_userId old = Some (resp_id (res_user r)) \<and> old \<noteq> res_refreshToken r
          \<longrightarrow> AuthService_refreshToken cfg us1 old now' =
                (Inl (ApiError 401 ''Invalid refresh token''), us1))
       \<and> (AuthService_refreshToken cfg us t now = (Inr (a, new), us2) \<and>
            token_userId old = token_userId t \<and> old \<noteq> new
          \<longrightarrow> AuthService_refreshToken cfg us2 old now' =
                (Inl (ApiError 401 ''Invalid refresh token''), us2))"
proof (intro conjI impI)
  assume h: "AuthService_login X cfg us em pw rm now = (Inr r, us1) \<and>
            token_userId old = Some (resp_id (res_user r)) \<and> old \<noteq> res_refreshToken r"
  then obtain u where u: "resp_id (res_user r) = user_id u"
    "us1 = User_save (u\<lparr> lastLogin := Some now, refreshToken := Some (res_refreshToken r) \<rparr>) us"
    using login_success [of X cfg us em pw rm now r us1] by blast
  show "AuthService_refreshToken cfg us1 old now' = (Inl (ApiError 401 ''Invalid refresh token''), us1)"
    using ids u(2)
  proof (rule replaced_token_refused)
    show "refreshToken (u\<lparr> lastLogin := Some now, refreshToken := Some (res_refreshToken r) \<rparr>) =
            Some (res_refreshToken r)" by simp
    show "token_userId old = Some (user_id (u\<lparr> lastLogin := Some now, refreshToken := Some (res_refreshToken r) \<rparr>))"
      using h u(1) by simp
    show "old \<noteq> res_refreshToken r" using h by simp
  qed
next
  assume h: "AuthService_refreshToken cfg us t now = (Inr (a, new), us2) \<and>
            token_userId old = token_userId t \<and> old \<noteq> new"
  then obtain u where u: "token_userId t = Some (user_id u)"
    "us2 = User_save (u\<lparr> refreshToken := Some new \<rparr>) us"
    using refresh_success [of cfg us t now a new us2] by blast
  show "AuthService_refreshToken cfg us2 old now' = (Inl (ApiError 401 ''Invalid refresh token''), us2)"
    using ids u(2)
  proof (rule replaced_token_refused)
    show "refreshToken (u\<lparr> refreshToken := Some new \<rparr>) = Some new" by simp
    show "token_userId old = Some (user_id (u\<lparr> refreshToken := Some new \<rparr>))" using h u(1) by simp
    show "old \<noteq> new" using h by simp
  qed
qed

text \<open>
  Claim C5. A login with an email that no active user has, and a login with the email
  of an active user and a password that does not match, fail with the same error,
  \<^verbatim>\<open>ApiError(401, 'Invalid email or password')\<close>, of kind Unauthorized, and leave the
  collection as it is.
\<close>
theorem login_failures_indistinguishable:
  assumes unknown: "\<forall>u\<in>set us. \<not> (email u = email_setter X e1 \<and> isActive u)"
    and known: "User_findOne (\<lambda>u. email u = email_setter X e2 \<and> isActive u) us = Some u"
    and wrong: "\<not> bcrypt_compare X p2 (password u)"
  shows "AuthService_login X cfg us e1 p1 r1 n1 = (Inl (ApiError 401 ''Invalid email or password''), us)
       \<and> AuthService_login X cfg us e2 p2 r2 n2 = (Inl (ApiError 401 ''Invalid email or password''), us)
       \<and> kind_of (ApiError 401 ''Invalid email or password'') = Unauthorized"
proof -
  from unknown have "User_findOne (\<lambda>u. email u = email_setter X e1 \<and> isActive u) us = None"
    by (simp add: User_findOne_def find_None_iff)
  then have "AuthService_login X cfg us e1 p1 r1 n1 = (Inl (ApiError 401 ''Invalid email or password''), us)"
    by (simp add: AuthService_login_def)
  moreover from known wrong
  have "AuthService_login X cfg us e2 p2 r2 n2 = (Inl (ApiError 401 ''Invalid email or password''), us)"
    by (simp add: AuthService_login_def)
  ultimately show ?thesis by (simp add: kind_of_status_def)
qed


lemma register_existing:
  assumes "\<exists>u\<in>set us. email u = email_setter X (reg_email d)"
  shows "AuthService_register X cfg us d i s n =
           (Inl (ApiError 400 ''User already exists with this email''), us)"
proof -
  from assms have "\<exists>y. find (\<lambda>u. email u = email_setter X (reg_email d)) us = Some y"
    by (rule find_exists)
  then show ?thesis by (auto simp: AuthService_register_def User_findOne_def)
qed

lemma register_success:
  assumes "AuthService_register X cfg us d i s n = (Inr r, us1)"
  shows "\<exists>u\<in>set us1. email u = email_setter X (reg_email d)"
proof -
  from assms obtain u where c: "User_create X d i s us = (Inr u, us @ [u])"
    and e: "email u = email_setter X (reg_email d)" "user_id u = i"
    and fresh: "\<forall>v\<in>set us. user_id v \<noteq> i"
    and us1: "us1 = User_save (u\<lparr> refreshToken := Some (generateRefreshToken cfg u n) \<rparr>) (us @ [u])"
    by (auto simp: AuthService_register_def User_create_def Let_def list_ex_iff
             split: option.splits if_splits)
  have "us1 = us @ [u\<lparr> refreshToken := Some (generateRefreshToken cfg u n) \<rparr>]"
    unfolding us1 using fresh e(2) by (intro User_save_append) simp_all
  with e(1) show ?thesis by simp
qed

text \<open>
  Claim C7, as amended. \<^verbatim>\<open>register\<close> with an email a user already has fails with
  \<^verbatim>\<open>ApiError(400, 'User already exists with this email')\<close> and leaves the collection
  as it is; and after a successful \<^verbatim>\<open>register\<close>, a second one with the same email
  fails so.
\<close>
theorem duplicate_registration_refused:
  "((\<exists>u\<in>set us. email u = email_setter X (reg_email d))
      \<longrightarrow> AuthService_register X cfg us d i s n =
            (Inl (ApiError 400 ''User already exists with this email''), us))
   \<and> (AuthService_register X cfg us0 d0 i0 s0 n0 = (Inr r, us1) \<and>
        email_setter X (reg_email d') = email_setter X (reg_email d0)
      \<longrightarrow> AuthService_register X cfg us1 d' i' s' n' =
            (Inl (ApiError 400 ''User already exists with this email''), us1))"
proof (intro conjI impI)
  assume "\<exists>u\<in>set us. email u = email_setter X (reg_email d)"
  then show "AuthService_register X cfg us d i s n =
            (Inl (ApiError 400 ''User already exists with this email''), us)"
    by (rule register_existing)
next
  assume h: "AuthService_register X cfg us0 d0 i0 s0 n0 = (Inr r, us1) \<and>
        email_setter X (reg_email d') = email_setter X (reg_email d0)"
  then have "\<exists>u\<in>set us1. email u = email_setter X (reg_email d0)"
    using register_success [of X cfg us0 d0 i0 s0 n0 r us1] by blast
  with h have "\<exists>u\<in>set us1. email u = email_setter X (reg_email d')" by simp
  then show "AuthService_register X cfg us1 d' i' s' n' =
            (Inl (ApiError 400 ''User already exists with this email''), us1)"
    by (rule register_existing)
qed

lemma at_most_one:
  assumes "length (filter P xs) \<le> 1" "x \<in> set xs" "P x" "y \<in> set xs" "P y"
  shows "x = y"
proof -
  from assms have "x \<in> set (filter P xs)" "y \<in> set (filter P xs)" by simp_all
  with assms(1) show ?thesis by (cases "filter P xs") auto
qed

lemma no_match_reset:
  assumes "\<forall>u\<in>set us. passwordResetToken u = Some (sha256_hex X tok) \<longrightarrow>
             (case passwordResetExpires u of None \<Rightarrow> True | Some e \<Rightarrow> e \<le> now) \<or> \<not> isActive u"
  shows "AuthService_resetPassword X us tok pw salt now =
           (Inl (ApiError 400 ''Invalid or expired reset token''), us)"
proof -
  from assms have "User_findOne
             (\<lambda>u. passwordResetToken u = Some (sha256_hex X tok) \<and>
                  (case passwordResetExpires u of None \<Rightarrow> False | Some e \<Rightarrow> now < e) \<and>
                  isActive u) us = None"
    by (auto simp: User_findOne_def find_None_iff split: option.splits)
  then show ?thesis by (simp add: AuthService_resetPassword_def Let_def)
qed

text \<open>
  Claim C6. Let the hash of a reset token be stored on one user at most. When
  \<^verbatim>\<open>resetPassword\<close> has succeeded with the token, a second call with it fails with
  \<^verbatim>\<open>ApiError(400, 'Invalid or expired reset token')\<close>: the first call stored the new
  password hash on the user that held the token and cleared that user's reset hash and
  reset expiry together.
\<close>
theorem reset_token_single_use:
  assumes ids: "distinct (map user_id us)"
    and single: "length (filter (\<lambda>u. passwordResetToken u = Some (sha256_hex X tok)) us) \<le> 1"
    and ok: "AuthService_resetPassword X us tok pw salt now = (Inr (), us')"
  shows "AuthService_resetPassword X us' tok pw' salt' now' =
           (Inl (ApiError 400 ''Invalid or expired reset token''), us')
       \<and> (\<exists>u\<in>set us. passwordResetToken u = Some (sha256_hex X tok) \<and>
             us' = map (\<lambda>v. if user_id v = user_id u
                             then u\<lparr> password := bcrypt_hash X pw salt,
                                    passwordResetToken := None,
                                    passwordResetExpires := None \<rparr>
                             else v) us)"
proof -
  let ?h = "sha256_hex X tok"
  from ok obtain u where
    u: "User_findOne
             (\<lambda>u. passwordResetToken u = Some ?h \<and>
                  (case passwordResetExpires u of None \<Rightarrow> False | Some e \<Rightarrow> now < e) \<and>
                  isActive u) us = Some u"
    by (auto simp: AuthService_resetPassword_def Let_def split: option.splits)
  then have u': "u \<in> set us" "passwordResetToken u = Some ?h"
    by (auto simp: User_findOne_def dest: find_Some_set)
  let ?u = "u\<lparr> password := bcrypt_hash X pw salt, passwordResetToken := None,
                passwordResetExpires := None \<rparr>"
  from ok u have "us' = User_save ?u us"
    by (auto simp: AuthService_resetPassword_def Let_def split: if_splits)
  also have "\<dots> = map (\<lambda>v. if user_id v = user_id ?u then ?u else v) us"
    using ids by (rule User_save_map)
  finally have us': "us' = map (\<lambda>v. if user_id v = user_id u then ?u else v) us" by simp
  have "AuthService_resetPassword X us' tok pw' salt' now' =
           (Inl (ApiError 400 ''Invalid or expired reset token''), us')"
  proof (rule no_match_reset, rule ballI, rule impI)
    fix v' assume v': "v' \<in> set us'" "passwordResetToken v' = Some ?h"
    from v'(1) us' obtain v where v: "v \<in> set us" "v' = (if user_id v = user_id u then ?u else v)"
      by auto
    show "(case passwordResetExpires v' of None \<Rightarrow> True | Some e \<Rightarrow> e \<le> now') \<or> \<not> isActive v'"
    proof (cases "user_id v = user_id u")
      case True
      with v(2) have "passwordResetToken v' = None" by simp
      with v'(2) show ?thesis by simp
    next
      case False
      with v(2) have "v' = v" by simp
      with v'(2) v(1) u' single have "v = u" by (auto intro: at_most_one)
      with False show ?thesis by simp
    qed
  qed
  with u' us' show ?thesis by blast
qed

text \<open>
  Claim C9. \<^verbatim>\<open>forgotPassword\<close> returns the token and stores, on the active user with
  that email, the hash of the token with an expiry ten minutes after the clock; and
  \<^verbatim>\<open>resetPassword\<close> with that token, the clock being at that expiry or later, fails
  with \<^verbatim>\<open>ApiError(400, 'Invalid or expired reset token')\<close>. The token is taken to be
  fresh: no user stores its hash already.
\<close>
theorem reset_token_expires:
  assumes ids: "distinct (map user_id us)"
    and fresh: "\<forall>u\<in>set us. passwordResetToken u \<noteq> Some (sha256_hex X tok)"
    and issued: "AuthService_forgotPassword X us em tok now = (Inr t, us')"
    and late: "now + 10 * 60 * 1000 \<le> now'"
  shows "t = tok
       \<and> (\<exists>u. User_findOne (\<lambda>u. email u = email_setter X em \<and> isActive u) us = Some u \<and>
             us' = map (\<lambda>v. if user_id v = user_id u
                             then u\<lparr> passwordResetToken := Some (sha256_hex X tok),
                                    passwordResetExpires := Some (now + 10 * 60 * 1000) \<rparr>
                             else v) us)
       \<and> AuthService_resetPassword X us' tok pw salt now' =
           (Inl (ApiError 400 ''Invalid or expired reset token''), us')"
proof -
  let ?h = "sha256_hex X tok"
  from issued obtain u where
    u: "User_findOne (\<lambda>u. email u = email_setter X em \<and> isActive u) us = Some u"
    by (auto simp: AuthService_forgotPassword_def split: option.splits)
  let ?u = "u\<lparr> passwordResetToken := Some ?h, passwordResetExpires := Some (now + 10 * 60 * 1000) \<rparr>"
  from issued u have t: "t = tok" and "us' = User_save ?u us"
    by (auto simp: AuthService_forgotPassword_def Let_def)
  then have "us' = map (\<lambda>v. if user_id v = user_id ?u then ?u else v) us"
    using ids by (simp only: User_save_map)
  then have us': "us' = map (\<lambda>v. if user_id v = user_id u then ?u else v) us" by simp
  have "AuthService_resetPassword X us' tok pw salt now' =
           (Inl (ApiError 400 ''Invalid or expired reset token''), us')"
  proof (rule no_match_reset, rule ballI, rule impI)
    fix v' assume v': "v' \<in> set us'" "passwordResetToken v' = Some ?h"
    from v'(1) us' obtain v where v: "v \<in> set us" "v' = (if user_id v = user_id u then ?u else v)"
      by auto
    show "(case passwordResetExpires v' of None \<Rightarrow> True | Some e \<Rightarrow> e \<le> now') \<or> \<not> isActive v'"
    proof (cases "user_id v = user_id u")
      case True
      with v(2) late show ?thesis by simp
    next
      case False
      with v v'(2) fresh show ?thesis by auto
    qed
  qed
  with t u us' show ?thesis by blast
qed

section \<open>Worked examples\<close>

subsection \<open>Bids\<close>

lemmas bid_eval = BidsService_updateBidStatus_def BidsService_createBid_def BidsService_updateBid_def
  BidsService_withdrawBid_def BidsController_updateBid_def
  sample_bids_def sample_bid_def sample_gigs_def sample_bidData_def sample_platform_def
  Bid_findOne_def Bid_updateMany_def Bid_findByIdAndUpdate_def Bid_create_def Gig_findById_def
  apply_patch_def status_patch_def no_patch_def bidSchema_valid_def index_conflict_def Let_def

text \<open>The scenario of the specification: three pending bids, the second is accepted.\<close>

theorem accept_cascade_witness:
  "distinct (map bid_id sample_bids) \<and>
   sample_bid bidI2 gigA userF2 ownerC Pending \<in> set sample_bids \<and>
   ObjectId_isValid sample_platform bidI2 \<and>
   map status (snd (BidsService_updateBidStatus sample_platform sample_bids bidI2 accepted ownerC)) =
     [Rejected, Accepted, Rejected, Withdrawn, Pending]"
  using accept_cascade [of sample_bids "sample_bid bidI2 gigA userF2 ownerC Pending" ownerC sample_platform]
  by (simp add: sample_bids_def sample_bid_def sample_platform_def)

text \<open>A withdrawn bid stays withdrawn, whatever is tried on it.\<close>

theorem terminal_status_is_final_witness:
  "unique_ids sample_bids \<and> status_of bidI4 sample_bids = Some Withdrawn \<and>
   status_of bidI4
     (run_ops sample_platform sample_gigs sample_bids
        [UpdateBidStatus bidI4 accepted ownerC, UpdateBid bidI4 (status_patch Pending) userF4,
         UpdateBidStatus bidI1 accepted ownerC, WithdrawBid bidI4 userF4]) = Some Withdrawn"
  using terminal_status_is_final [of sample_bids bidI4 Withdrawn sample_platform sample_gigs
        "[UpdateBidStatus bidI4 accepted ownerC, UpdateBid bidI4 (status_patch Pending) userF4,
         UpdateBidStatus bidI1 accepted ownerC, WithdrawBid bidI4 userF4]"]
  by (simp add: unique_ids_def status_of_def sample_bids_def sample_bid_def)



text \<open>
  The claim C8 as the specification states it fails, in four ways. On an inactive gig
  the owner gets status 404, the kind NotFound, since the gig is looked at first. A
  bid by the owner of its gig comes to exist when the service's \<^verbatim>\<open>updateBid\<close> is
  given a new \<^verbatim>\<open>freelancerId\<close>, and when the service's \<^verbatim>\<open>updateGig\<close> is given a
  new owner who has a bid on the gig. And \<^verbatim>\<open>createBid\<close> accepts the owner when the
  string spells the owner's identifier in upper case: the comparison is on the strings,
  the stored bid holds the identifier.
\<close>

theorem own_gig_bid_refused_counterexample:
  "Gig_findById gigB sample_gigs =
     Some \<lparr> gig_id = gigB, gig_freelancerId = ownerC, gig_isActive = False \<rparr> \<and>
   BidsService_createBid sample_platform sample_gigs [] (sample_bidData gigB) ownerC bidI1 =
     (Inl (ApiError 404 ''Gig not found or is not active''), []) \<and>
   kind_of (ApiError 404 ''Gig not found or is not active'') \<noteq> BadRequest \<and>
   list_all (not_own_gig sample_gigs) sample_bids \<and>
   \<not> list_all (not_own_gig sample_gigs)
       (snd (BidsService_updateBid sample_platform sample_bids bidI1
               (no_patch\<lparr> patch_freelancerId := Some ownerC \<rparr>) userF1)) \<and>
   \<not> list_all
       (not_own_gig
          (snd (GigsService_updateGig sample_platform sample_gigs gigA
                  \<lparr> gpatch_freelancerId = Some userF1, gpatch_isActive = None \<rparr> ownerC)))
       sample_bids \<and>
   BidsService_createBid sample_platform sample_gigs [] (sample_bidData gigA)
       ''64C000000000000000000001'' bidI1 =
     (Inr (sample_bid bidI1 gigA ownerC ownerC Pending),
      [sample_bid bidI1 gigA ownerC ownerC Pending]) \<and>
   \<not> not_own_gig sample_gigs (sample_bid bidI1 gigA ownerC ownerC Pending)"
  by (simp add: bid_eval kind_of_status_def not_own_gig_def GigsService_updateGig_def
        apply_gig_patch_def)

theorem own_gig_bid_refused_witness:
  "Gig_findById gigA sample_gigs =
     Some \<lparr> gig_id = gigA, gig_freelancerId = ownerC, gig_isActive = True \<rparr> \<and>
   list_all (\<lambda>(gigs', r). keeps_owners sample_owners gigs' \<and> printed_caller sample_platform r)
     sample_steps \<and>
   no_own_gig_bid sample_owners sample_bids \<and>
   BidsService_createBid sample_platform sample_gigs sample_bids (sample_bidData gigA) ownerC
       ''64b000000000000000000006'' =
     (Inl (ApiError 400 ''You cannot bid on your own gig''), sample_bids) \<and>
   no_own_gig_bid sample_owners (serve_each sample_platform sample_bids sample_steps) \<and>
   length (serve_each sample_platform sample_bids sample_steps) = 6"
proof -
  have g: "Gig_findById gigA sample_gigs =
     Some \<lparr> gig_id = gigA, gig_freelancerId = ownerC, gig_isActive = True \<rparr>"
    by (simp add: Gig_findById_def sample_gigs_def)
  have steps: "list_all (\<lambda>(gigs', r). keeps_owners sample_owners gigs' \<and> printed_caller sample_platform r)
     sample_steps"
    by (simp add: sample_steps_def sample_owners_def sample_gigs_def keeps_owners_def
          sample_platform_def)
  have inv: "no_own_gig_bid sample_owners sample_bids"
    by (simp add: no_own_gig_bid_def sample_owners_def sample_bids_def sample_bid_def)
  have d: "patch_gigId (sample_bidData gigA) = Some gigA" by (simp add: sample_bidData_def)
  have run: "length (serve_each sample_platform sample_bids sample_steps) = 6"
    by (simp add: serve_each_def sample_steps_def bid_eval updateBidSchema_validate_def
          optional_number_def optional_string_def optional_attachments_def)
  from own_gig_bid_refused [OF g _ d steps inv, of ownerC "''64b000000000000000000006''"]
    g steps inv run
  show ?thesis by simp
qed

theorem update_changes_content_only_witness:
  "unique_ids sample_bids \<and>
   BidsController_updateBid sample_platform sample_bids [(''amount'', JNumber 75)] bidI1 userF1 =
     (Inr (Some ((sample_bid bidI1 gigA userF1 ownerC Pending)\<lparr>amount := 75\<rparr>)),
      (sample_bid bidI1 gigA userF1 ownerC Pending)\<lparr>amount := 75\<rparr> # tl sample_bids) \<and>
   (\<exists>b a d p ats.
      b \<in> set sample_bids \<and> bid_id b = bidI1 \<and> freelancerId b = userF1 \<and> status b = Pending \<and>
      Some ((sample_bid bidI1 gigA userF1 ownerC Pending)\<lparr>amount := 75\<rparr>) =
        Some (b\<lparr>amount := a, deliveryTime := d, proposal := p, attachments := ats\<rparr>) \<and>
      (sample_bid bidI1 gigA userF1 ownerC Pending)\<lparr>amount := 75\<rparr> # tl sample_bids =
        map (\<lambda>c. if bid_id c = bidI1
                  then c\<lparr>amount := a, deliveryTime := d, proposal := p, attachments := ats\<rparr>
                  else c) sample_bids)"
proof -
  have ids: "unique_ids sample_bids"
    by (simp add: unique_ids_def sample_bids_def sample_bid_def)
  have ok: "BidsController_updateBid sample_platform sample_bids [(''amount'', JNumber 75)] bidI1 userF1 =
     (Inr (Some ((sample_bid bidI1 gigA userF1 ownerC Pending)\<lparr>amount := 75\<rparr>)),
      (sample_bid bidI1 gigA userF1 ownerC Pending)\<lparr>amount := 75\<rparr> # tl sample_bids)"
    by (simp add: bid_eval updateBidSchema_validate_def optional_number_def optional_string_def
          optional_attachments_def)
  from update_changes_content_only [OF ok ids] ids ok show ?thesis by simp
qed

subsection \<open>Accounts\<close>

lemmas auth_eval = AuthService_login_def AuthService_register_def AuthService_refreshToken_def
  AuthService_forgotPassword_def AuthService_resetPassword_def
  sample_users_def sample_user_def sample_platform_def sample_registration_def
  email_setter_def User_findOne_def User_create_def userSchema_valid_def Let_def
  generateAuthToken_def generateRefreshToken_def jwt_sign_def default_config_def userResponse_def

lemma sample_login_value:
  "sample_login =
     (Inr \<lparr> res_user = \<lparr> resp_id = userF1, resp_email = ''a@b.com'', resp_firstName = ''Ada'',
                          resp_lastName = ''Lee'', resp_role = Freelancer, resp_bio = None,
                          resp_skills = [], resp_hourlyRate = None, resp_lastLogin = Some 1000 \<rparr>,
             res_token = JWT ''your-super-secret-jwt-key-change-this-in-production''
                           \<lparr> claim_userId = userF1, claim_email = Some ''a@b.com'',
                             claim_role = Some Freelancer \<rparr> 1 604801,
             res_refreshToken = sample_refresh_token \<rparr>,
      [(sample_user userF1 ''a@b.com'' ''salt$Secret1'')
          \<lparr> lastLogin := Some 1000, refreshToken := Some sample_refresh_token \<rparr>,
       sample_user userF2 ''c@d.com'' ''salt$Secret2''])"
  by (simp add: sample_login_def sample_refresh_token_def auth_eval)

lemma sample_login_again_value:
  "sample_login_again =
     (Inr \<lparr> res_user = \<lparr> resp_id = userF1, resp_email = ''a@b.com'', resp_firstName = ''Ada'',
                          resp_lastName = ''Lee'', resp_role = Freelancer, resp_bio = None,
                          resp_skills = [], resp_hourlyRate = None, resp_lastLogin = Some 1500 \<rparr>,
             res_token = JWT ''your-super-secret-jwt-key-change-this-in-production''
                           \<lparr> claim_userId = userF1, claim_email = Some ''a@b.com'',
                             claim_role = Some Freelancer \<rparr> 1 604801,
             res_refreshToken = sample_refresh_token \<rparr>,
      [(sample_user userF1 ''a@b.com'' ''salt$Secret1'')
          \<lparr> lastLogin := Some 1500, refreshToken := Some sample_refresh_token \<rparr>,
       sample_user userF2 ''c@d.com'' ''salt$Secret2''])"
  by (simp add: sample_login_again_def sample_login_value sample_refresh_token_def auth_eval)

text \<open>
  The claim C4 as the specification states it fails: two logins of one user within one
  second of the clock issue the same refresh token, so the token of the first login is
  still accepted after the second.
\<close>

theorem rotation_refuses_previous_token_counterexample:
  "issued_refresh_token sample_login = Some sample_refresh_token \<and>
   issued_refresh_token sample_login_again = Some sample_refresh_token \<and>
   fst (AuthService_refreshToken default_config (snd sample_login_again) sample_refresh_token 1600)
     = Inr (JWT ''your-super-secret-jwt-key-change-this-in-production''
              \<lparr> claim_userId = userF1, claim_email = Some ''a@b.com'',
                claim_role = Some Freelancer \<rparr> 1 604801,
            sample_refresh_token)"
  by (simp add: issued_refresh_token_def sample_login_value sample_login_again_value
        sample_refresh_token_def AuthService_refreshToken_def User_findOne_def sample_user_def
        default_config_def generateAuthToken_def generateRefreshToken_def jwt_sign_def Let_def)

theorem login_failures_indistinguishable_witness:
  "\<not> (\<exists>u\<in>set sample_users. email u = email_setter sample_platform ''x@y.com'' \<and> isActive u) \<and>
   User_findOne (\<lambda>u. email u = email_setter sample_platform ''a@b.com'' \<and> isActive u) sample_users =
     Some (sample_user userF1 ''a@b.com'' ''salt$Secret1'') \<and>
   \<not> bcrypt_compare sample_platform ''Secret9'' (password (sample_user userF1 ''a@b.com'' ''salt$Secret1'')) \<and>
   AuthService_login sample_platform default_config sample_users ''x@y.com'' ''Secret1'' False 1000 =
     (Inl (ApiError 401 ''Invalid email or password''), sample_users) \<and>
   AuthService_login sample_platform default_config sample_users ''a@b.com'' ''Secret9'' False 1000 =
     (Inl (ApiError 401 ''Invalid email or password''), sample_users)"
proof -
  have unknown: "\<forall>u\<in>set sample_users. \<not> (email u = email_setter sample_platform ''x@y.com'' \<and> isActive u)"
    by (simp add: sample_users_def sample_user_def email_setter_def sample_platform_def)
  have known: "User_findOne (\<lambda>u. email u = email_setter sample_platform ''a@b.com'' \<and> isActive u) sample_users =
     Some (sample_user userF1 ''a@b.com'' ''salt$Secret1'')"
    by (simp add: User_findOne_def sample_users_def sample_user_def email_setter_def sample_platform_def)
  have wrong: "\<not> bcrypt_compare sample_platform ''Secret9'' (password (sample_user userF1 ''a@b.com'' ''salt$Secret1''))"
    by (simp add: sample_user_def sample_platform_def)
  from login_failures_indistinguishable [OF unknown known wrong, of default_config "''Secret1''" False 1000 False 1000]
    unknown known wrong
  show ?thesis by simp
qed


lemma sample_login_later_value:
  "sample_login_later =
     (Inr \<lparr> res_user = \<lparr> resp_id = userF1, resp_email = ''a@b.com'', resp_firstName = ''Ada'',
                          resp_lastName = ''Lee'', resp_role = Freelancer, resp_bio = None,
                          resp_skills = [], resp_hourlyRate = None, resp_lastLogin = Some 5000 \<rparr>,
             res_token = JWT ''your-super-secret-jwt-key-change-this-in-production''
                           \<lparr> claim_userId = userF1, claim_email = Some ''a@b.com'',
                             claim_role = Some Freelancer \<rparr> 5 604805,
             res_refreshToken = JWT ''your-refresh-secret-key''
                           \<lparr> claim_userId = userF1, claim_email = None, claim_role = None \<rparr>
                           5 2592005 \<rparr>,
      [(sample_user userF1 ''a@b.com'' ''salt$Secret1'')
          \<lparr> lastLogin := Some 5000,
            refreshToken := Some (JWT ''your-refresh-secret-key''
                           \<lparr> claim_userId = userF1, claim_email = None, claim_role = None \<rparr>
                           5 2592005) \<rparr>,
       sample_user userF2 ''c@d.com'' ''salt$Secret2''])"
  by (simp add: sample_login_later_def sample_login_value sample_refresh_token_def auth_eval)

lemma sample_refresh_value:
  "sample_refresh =
     (Inr (JWT ''your-super-secret-jwt-key-change-this-in-production''
             \<lparr> claim_userId = userF1, claim_email = Some ''a@b.com'',
               claim_role = Some Freelancer \<rparr> 5 604805,
           JWT ''your-refresh-secret-key''
             \<lparr> claim_userId = userF1, claim_email = None, claim_role = None \<rparr> 5 2592005),
      [(sample_user userF1 ''a@b.com'' ''salt$Secret1'')
          \<lparr> lastLogin := Some 1000,
            refreshToken := Some (JWT ''your-refresh-secret-key''
                           \<lparr> claim_userId = userF1, claim_email = None, claim_role = None \<rparr>
                           5 2592005) \<rparr>,
       sample_user userF2 ''c@d.com'' ''salt$Secret2''])"
  by (simp add: sample_refresh_def sample_login_value sample_refresh_token_def auth_eval)

theorem rotation_refuses_previous_token_witness:
  "distinct (map user_id (snd sample_login)) \<and>
   \<not> isl (fst sample_login_later) \<and>
   token_userId sample_refresh_token = Some (resp_id (res_user (projr (fst sample_login_later)))) \<and>
   sample_refresh_token \<noteq> res_refreshToken (projr (fst sample_login_later)) \<and>
   AuthService_refreshToken default_config (snd sample_login_later) sample_refresh_token 6000 =
     (Inl (ApiError 401 ''Invalid refresh token''), snd sample_login_later) \<and>
   \<not> isl (fst sample_refresh) \<and>
   sample_refresh_token \<noteq> snd (projr (fst sample_refresh)) \<and>
   AuthService_refreshToken default_config (snd sample_refresh) sample_refresh_token 6000 =
     (Inl (ApiError 401 ''Invalid refresh token''), snd sample_refresh)"
proof -
  have ids: "distinct (map user_id (snd sample_login))"
    by (simp add: sample_login_value sample_user_def)
  have l: "AuthService_login sample_platform default_config (snd sample_login)
       ''a@b.com'' ''Secret1'' False 5000 = (Inr (projr (fst sample_login_later)), snd sample_login_later)"
    unfolding sample_login_later_def [symmetric] by (simp add: sample_login_later_value)
  have r: "AuthService_refreshToken default_config (snd sample_login) sample_refresh_token 5000 =
      (Inr (fst (projr (fst sample_refresh)), snd (projr (fst sample_refresh))), snd sample_refresh)"
    unfolding sample_refresh_def [symmetric] by (simp add: sample_refresh_value)
  have facts: "\<not> isl (fst sample_login_later)"
    "token_userId sample_refresh_token = Some (resp_id (res_user (projr (fst sample_login_later))))"
    "sample_refresh_token \<noteq> res_refreshToken (projr (fst sample_login_later))"
    "\<not> isl (fst sample_refresh)"
    "sample_refresh_token \<noteq> snd (projr (fst sample_refresh))"
    by (simp_all add: sample_login_later_value sample_refresh_value sample_refresh_token_def)
  from rotation_refuses_previous_token [OF ids, of sample_platform default_config
      "''a@b.com''" "''Secret1''" False 5000 "projr (fst sample_login_later)" "snd sample_login_later"
      sample_refresh_token 6000 sample_refresh_token "fst (projr (fst sample_refresh))"
      "snd (projr (fst sample_refresh))" "snd sample_refresh"]
    l r facts ids
  show ?thesis by simp
qed

lemma sample_register_value:
  "sample_register =
     (Inr \<lparr> res_user = \<lparr> resp_id = ''64f000000000000000000009'', resp_email = ''e@f.com'',
                          resp_firstName = ''Ada'', resp_lastName = ''Lee'', resp_role = Freelancer,
                          resp_bio = None, resp_skills = [], resp_hourlyRate = None,
                          resp_lastLogin = None \<rparr>,
             res_token = JWT ''your-super-secret-jwt-key-change-this-in-production''
                           \<lparr> claim_userId = ''64f000000000000000000009'',
                             claim_email = Some ''e@f.com'', claim_role = Some Freelancer \<rparr>
                           1 604801,
             res_refreshToken = JWT ''your-refresh-secret-key''
                           \<lparr> claim_userId = ''64f000000000000000000009'', claim_email = None,
                             claim_role = None \<rparr> 1 2592001 \<rparr>,
      sample_users @
      [(sample_user ''64f000000000000000000009'' ''e@f.com'' ''salt$Secret1'')
          \<lparr> refreshToken := Some (JWT ''your-refresh-secret-key''
                           \<lparr> claim_userId = ''64f000000000000000000009'', claim_email = None,
                             claim_role = None \<rparr> 1 2592001) \<rparr>])"
  by (simp add: sample_register_def auth_eval)

text \<open>
  The claim C7 as the specification states it, with the kind Conflict, fails:
  \<^verbatim>\<open>register\<close> with a known email fails with status 400, the kind BadRequest.
\<close>

theorem duplicate_registration_refused_counterexample:
  "''a@b.com'' \<in> set (map email sample_users) \<and>
   AuthService_register sample_platform default_config sample_users (sample_registration ''a@b.com'')
       ''64f000000000000000000009'' ''salt'' 1000 =
     (Inl (ApiError 400 ''User already exists with this email''), sample_users) \<and>
   kind_of (ApiError 400 ''User already exists with this email'') \<noteq> Conflict"
  by (simp add: auth_eval kind_of_status_def)

theorem duplicate_registration_refused_witness:
  "(\<exists>u\<in>set sample_users. email u = email_setter sample_platform (reg_email (sample_registration ''a@b.com''))) \<and>
   AuthService_register sample_platform default_config sample_users (sample_registration ''a@b.com'')
       ''64f000000000000000000009'' ''salt'' 1000 =
     (Inl (ApiError 400 ''User already exists with this email''), sample_users) \<and>
   \<not> isl (fst sample_register) \<and>
   AuthService_register sample_platform default_config (snd sample_register)
       (sample_registration ''e@f.com'') ''64f00000000000000000000a'' ''salt'' 2000 =
     (Inl (ApiError 400 ''User already exists with this email''), snd sample_register)"
proof -
  have ex: "\<exists>u\<in>set sample_users. email u = email_setter sample_platform (reg_email (sample_registration ''a@b.com''))"
    by (simp add: sample_users_def sample_user_def sample_registration_def email_setter_def sample_platform_def)
  have ok: "AuthService_register sample_platform default_config sample_users
       (sample_registration ''e@f.com'') ''64f000000000000000000009'' ''salt'' 1000 =
         (Inr (projr (fst sample_register)), snd sample_register)"
    unfolding sample_register_def [symmetric] by (simp add: sample_register_value)
  have isr: "\<not> isl (fst sample_register)" by (simp add: sample_register_value)
  from duplicate_registration_refused [of sample_users sample_platform "sample_registration ''a@b.com''"
      default_config "''64f000000000000000000009''" "''salt''" 1000
      sample_users "sample_registration ''e@f.com''" "''64f000000000000000000009''" "''salt''" 1000
      "projr (fst sample_register)" "snd sample_register" "sample_registration ''e@f.com''"
      "''64f00000000000000000000a''" "''salt''" 2000]
    ex ok isr
  show ?thesis by simp
qed

lemma sample_forgot_value:
  "sample_forgot =
     (Inr ''0f1e2d'',
      [(sample_user userF1 ''a@b.com'' ''salt$Secret1'')
          \<lparr> lastLogin := Some 1000, refreshToken := Some sample_refresh_token,
            passwordResetToken := Some ''sha256:0f1e2d'', passwordResetExpires := Some 700000 \<rparr>,
       sample_user userF2 ''c@d.com'' ''salt$Secret2''])"
  by (simp add: sample_forgot_def sample_login_value auth_eval)

lemma sample_reset_value:
  "sample_reset =
     (Inr (),
      [(sample_user userF1 ''a@b.com'' ''salt$Secret2b'')
          \<lparr> lastLogin := Some 1000, refreshToken := Some sample_refresh_token \<rparr>,
       sample_user userF2 ''c@d.com'' ''salt$Secret2''])"
  by (simp add: sample_reset_def sample_forgot_value auth_eval)

theorem reset_token_expires_witness:
  "distinct (map user_id (snd sample_login)) \<and>
   \<not> (\<exists>u\<in>set (snd sample_login). passwordResetToken u = Some (sha256_hex sample_platform ''0f1e2d'')) \<and>
   fst sample_forgot = Inr ''0f1e2d'' \<and>
   (100000 :: nat) + 10 * 60 * 1000 \<le> 700000 \<and>
   AuthService_resetPassword sample_platform (snd sample_forgot) ''0f1e2d'' ''Secret2b'' ''salt'' 700000 =
     (Inl (ApiError 400 ''Invalid or expired reset token''), snd sample_forgot)"
proof -
  have ids: "distinct (map user_id (snd sample_login))"
    by (simp add: sample_login_value sample_user_def)
  have fresh: "\<forall>u\<in>set (snd sample_login). passwordResetToken u \<noteq> Some (sha256_hex sample_platform ''0f1e2d'')"
    by (simp add: sample_login_value sample_user_def)
  have issued: "AuthService_forgotPassword sample_platform (snd sample_login) ''a@b.com'' ''0f1e2d'' 100000 =
      (Inr ''0f1e2d'', snd sample_forgot)"
    unfolding sample_forgot_def [symmetric] by (simp add: sample_forgot_value)
  have late: "(100000 :: nat) + 10 * 60 * 1000 \<le> 700000" by simp
  have isr: "fst sample_forgot = Inr ''0f1e2d''" by (simp add: sample_forgot_value)
  from reset_token_expires [OF ids fresh issued late, of "''Secret2b''" "''salt''"]
    ids fresh isr late
  show ?thesis by simp
qed

theorem reset_token_single_use_witness:
  "distinct (map user_id (snd sample_forgot)) \<and>
   length (filter (\<lambda>u. passwordResetToken u = Some (sha256_hex sample_platform ''0f1e2d''))
             (snd sample_forgot)) \<le> 1 \<and>
   fst sample_reset = Inr () \<and>
   AuthService_resetPassword sample_platform (snd sample_reset) ''0f1e2d'' ''Secret3c'' ''salt'' 300000 =
     (Inl (ApiError 400 ''Invalid or expired reset token''), snd sample_reset)"
proof -
  have ids: "distinct (map user_id (snd sample_forgot))"
    by (simp add: sample_forgot_value sample_user_def)
  have single: "length (filter (\<lambda>u. passwordResetToken u = Some (sha256_hex sample_platform ''0f1e2d''))
             (snd sample_forgot)) \<le> 1"
    by (simp add: sample_forgot_value sample_user_def sample_platform_def)
  have ok: "AuthService_resetPassword sample_platform (snd sample_forgot) ''0f1e2d'' ''Secret2b''
       ''salt'' 200000 = (Inr (), snd sample_reset)"
    unfolding sample_reset_def [symmetric] by (simp add: sample_reset_value)
  have isr: "fst sample_reset = Inr ()" by (simp add: sample_reset_value)
  from reset_token_single_use [OF ids single ok, of "''Secret3c''" "''salt''" 300000]
    ids single isr
  show ?thesis by simp
qed

end
